theory Spec2Isabelle
  imports Main
begin

section \<open>The push-notification gateway of main.go\<close>

text \<open>
  The program is a gin HTTP server with two middlewares and four handlers that forward
  requests to the Firebase messaging client. The handlers, the middlewares and the
  startup code of main.go are embedded below function by function. What main.go calls
  but does not define is modelled as follows.
  \<^item> The messaging client, the JSON binding of gin and the process environment are
    inputs: a record \<open>externals\<close> holds what they answer at the time of a request.
  \<^item> The small part of \<open>gin.Context\<close> the code uses (response writer, abort flag,
    keys) is a record with the operations \<open>Status\<close>, \<open>JSON\<close>, \<open>Abort\<close>, \<open>Bind\<close>,
    \<open>Set\<close>, \<open>Get\<close> and \<open>GetHeader\<close>, written after gin's documented behaviour.
  \<^item> Every call of the messaging client and every line given to the logger is appended
    to a trace, so that "the provider is never invoked" is a statement about the trace.
\<close>

subsection \<open>Data model (main.go, lines 17 to 39)\<close>

type_synonym addr = nat
type_synonym client = nat \<comment> \<open>a \<open>*messaging.Client\<close> handle\<close>
type_synonym go_error = string \<comment> \<open>an error value, by the text of its \<open>Error()\<close>\<close>

record AppState =
  MsgClient :: client

record Notification =
  Title :: string
  Body :: string

text \<open>
  Field names are global in a theory, so the fields \<open>Token\<close>, \<open>Topic\<close> and
  \<open>Notification\<close>, which several Go structs share, carry the initial of their struct.
\<close>

record PublishInput =
  p_Token :: string
  p_Notification :: Notification

record BroadCastInput =
  b_Topic :: string
  b_Notification :: Notification

record SubscribeInput =
  s_Tokens :: "string list"
  s_Topic :: string

text \<open>The zero values that \<open>var p PublishInput\<close> and its siblings declare.\<close>

definition zero_Notification :: Notification where
  "zero_Notification = \<lparr>Title = [], Body = []\<rparr>"

definition zero_PublishInput :: PublishInput where
  "zero_PublishInput = \<lparr>p_Token = [], p_Notification = zero_Notification\<rparr>"

definition zero_BroadCastInput :: BroadCastInput where
  "zero_BroadCastInput = \<lparr>b_Topic = [], b_Notification = zero_Notification\<rparr>"

definition zero_SubscribeInput :: SubscribeInput where
  "zero_SubscribeInput = \<lparr>s_Tokens = [], s_Topic = []\<rparr>"

subsection \<open>The messaging package: messages, replies, calls\<close>

record messaging_Notification =
  n_Title :: string
  n_Body :: string
  n_ImageURL :: string

text \<open>
  Of \<open>messaging.Message\<close> the three addressing fields and the notification are kept; the
  handlers leave every other field at its zero value. \<open>m_Notification\<close> is a pointer
  in Go, \<open>None\<close> is nil.
\<close>

record messaging_Message =
  m_Notification :: "messaging_Notification option"
  m_Token :: string
  m_Topic :: string
  m_Condition :: string

record ErrorInfo =
  Index :: int
  Reason :: string

record TopicManagementResponse =
  SuccessCount :: int
  FailureCount :: int
  Errors :: "ErrorInfo list"

datatype provider_call =
  SendCall client messaging_Message
| SubscribeCall client "string list" string
| UnsubscribeCall client "string list" string

fun call_client :: "provider_call \<Rightarrow> client" where
  "call_client (SendCall cl _) = cl"
| "call_client (SubscribeCall cl _ _) = cl"
| "call_client (UnsubscribeCall cl _ _) = cl"

subsection \<open>Requests and what the outside world answers\<close>

record request =
  req_method :: string
  req_path :: string
  req_header :: "string \<rightharpoonup> string"
  req_body :: string

text \<open>
  \<open>bind_Publish\<close>, \<open>bind_Broadcast\<close> and \<open>bind_Subscribe\<close> are gin's binding of the
  request to the three input structs: the struct as the decoder leaves it, and the
  decoding error if there is one. They take the whole request, since gin chooses the
  decoder by the method and the \<open>Content-Type\<close> header: the JSON decoder for
  \<open>application/json\<close>, the form decoder when a POST names no content type. \<open>fcm_Send\<close>, \<open>fcm_Subscribe\<close> and
  \<open>fcm_Unsubscribe\<close> are the replies of the messaging client, \<open>Inl\<close> the error the
  call returns. \<open>environ\<close> is the process environment.
\<close>

record externals =
  environ :: "string \<rightharpoonup> string"
  bind_Publish :: "request \<Rightarrow> PublishInput \<times> go_error option"
  bind_Broadcast :: "request \<Rightarrow> BroadCastInput \<times> go_error option"
  bind_Subscribe :: "request \<Rightarrow> SubscribeInput \<times> go_error option"
  fcm_Send :: "client \<Rightarrow> messaging_Message \<Rightarrow> go_error + string"
  fcm_Subscribe :: "client \<Rightarrow> string list \<Rightarrow> string \<Rightarrow> go_error + TopicManagementResponse"
  fcm_Unsubscribe :: "client \<Rightarrow> string list \<Rightarrow> string \<Rightarrow> go_error + TopicManagementResponse"

definition os_Getenv :: "externals \<Rightarrow> string \<Rightarrow> string" where
  \<comment> \<open>\<open>os.Getenv\<close>: the empty string when the variable is not set\<close>
  "os_Getenv X k = (case environ X k of None \<Rightarrow> [] | Some v \<Rightarrow> v)"

subsection \<open>Process state: memory and traces\<close>

datatype log_level = Info | Error

datatype log_value = LText string | LResp TopicManagementResponse

record log_entry =
  level :: log_level
  msg :: string
  keyvals :: "(string \<times> log_value) list"

record machine =
  heap :: "addr \<rightharpoonup> AppState"
  provider_calls :: "provider_call list"
  log_lines :: "log_entry list"

definition log_Info :: "string \<Rightarrow> (string \<times> log_value) list \<Rightarrow> machine \<Rightarrow> machine" where
  "log_Info s kvs m = m\<lparr>log_lines := log_lines m @ [\<lparr>level = Info, msg = s, keyvals = kvs\<rparr>]\<rparr>"

definition log_Error :: "string \<Rightarrow> (string \<times> log_value) list \<Rightarrow> machine \<Rightarrow> machine" where
  "log_Error s kvs m = m\<lparr>log_lines := log_lines m @ [\<lparr>level = Error, msg = s, keyvals = kvs\<rparr>]\<rparr>"

definition invoke :: "provider_call \<Rightarrow> machine \<Rightarrow> machine" where
  "invoke call m = m\<lparr>provider_calls := provider_calls m @ [call]\<rparr>"

subsection \<open>Strings: the functions of \<open>strings\<close> and \<open>fmt\<close> the code uses\<close>

fun HasPrefix :: "string \<Rightarrow> string \<Rightarrow> bool" where
  "HasPrefix s [] = True"
| "HasPrefix [] (p # ps) = False"
| "HasPrefix (c # cs) (p # ps) = (c = p \<and> HasPrefix cs ps)"

definition TrimPrefix :: "string \<Rightarrow> string \<Rightarrow> string" where
  "TrimPrefix s p = (if HasPrefix s p then drop (length p) s else s)"

definition digit_char :: "nat \<Rightarrow> char" where
  "digit_char d = ''0123456789'' ! d"

fun decimal :: "nat \<Rightarrow> string" where
  "decimal n = (if n < 10 then [digit_char n] else decimal (n div 10) @ [digit_char (n mod 10)])"

definition fmt_d :: "int \<Rightarrow> string" where
  \<comment> \<open>the verb \<open>%d\<close> on an int\<close>
  "fmt_d i = (if i < 0 then CHR ''-'' # decimal (nat (- i)) else decimal (nat i))"

definition fmt_v_Notification :: "messaging_Notification \<Rightarrow> string" where
  \<comment> \<open>the verb \<open>%v\<close> on a struct of three strings\<close>
  "fmt_v_Notification n = ''{'' @ n_Title n @ '' '' @ n_Body n @ '' '' @ n_ImageURL n @ ''}''"

subsection \<open>The part of \<open>gin.Context\<close> the code uses\<close>

type_synonym gin_H = "(string \<times> string) list"

datatype chunk = JSON_body gin_H | Text_body string

text \<open>
  \<open>status\<close> and \<open>written\<close> are the response writer's status code and whether the
  header has been sent; \<open>written_body\<close> is what has been written to the body, in order;
  \<open>aborted\<close> says that the handler index is at the abort index; \<open>Keys\<close> holds the
  pointers stored with \<open>Set\<close>; \<open>ctx_Errors\<close> is \<open>c.Errors\<close>.
\<close>

record gin_Context =
  Request :: request
  status :: nat
  written :: bool
  written_body :: "chunk list"
  aborted :: bool
  Keys :: "string \<rightharpoonup> addr"
  ctx_Errors :: "go_error list"

definition StatusOK :: nat where "StatusOK = 200"
definition StatusAccepted :: nat where "StatusAccepted = 202"
definition StatusBadRequest :: nat where "StatusBadRequest = 400"
definition StatusUnauthorized :: nat where "StatusUnauthorized = 401"
definition StatusNotFound :: nat where "StatusNotFound = 404"
definition StatusInternalServerError :: nat where "StatusInternalServerError = 500"
definition StatusBadGateway :: nat where "StatusBadGateway = 502"

definition new_Context :: "request \<Rightarrow> gin_Context" where
  "new_Context r = \<lparr>Request = r, status = StatusOK, written = False, written_body = [],
     aborted = False, Keys = Map.empty, ctx_Errors = []\<rparr>"

definition GetHeader :: "gin_Context \<Rightarrow> string \<Rightarrow> string" where
  \<comment> \<open>the empty string when the header is absent\<close>
  "GetHeader c k = (case req_header (Request c) k of None \<Rightarrow> [] | Some v \<Rightarrow> v)"

definition gin_Status :: "nat \<Rightarrow> gin_Context \<Rightarrow> gin_Context" where
  \<comment> \<open>\<open>c.Status\<close>: a status written after the header has been sent is dropped with a warning\<close>
  "gin_Status code c =
     (if 0 < code \<and> status c \<noteq> code then (if written c then c else c\<lparr>status := code\<rparr>) else c)"

definition WriteHeaderNow :: "gin_Context \<Rightarrow> gin_Context" where
  "WriteHeaderNow c = c\<lparr>written := True\<rparr>"

definition bodyAllowedForStatus :: "nat \<Rightarrow> bool" where
  "bodyAllowedForStatus code = (\<not> (100 \<le> code \<and> code \<le> 199) \<and> code \<noteq> 204 \<and> code \<noteq> 304)"

definition gin_JSON :: "nat \<Rightarrow> gin_H \<Rightarrow> gin_Context \<Rightarrow> gin_Context" where
  \<comment> \<open>\<open>c.JSON\<close>: set the status, then write the object, which sends the header\<close>
  "gin_JSON code obj c =
     (let c1 = gin_Status code c in
      if bodyAllowedForStatus code
      then (WriteHeaderNow c1)\<lparr>written_body := written_body c1 @ [JSON_body obj]\<rparr>
      else WriteHeaderNow c1)"

definition gin_Abort :: "gin_Context \<Rightarrow> gin_Context" where
  "gin_Abort c = c\<lparr>aborted := True\<rparr>"

definition AbortWithStatus :: "nat \<Rightarrow> gin_Context \<Rightarrow> gin_Context" where
  "AbortWithStatus code c = gin_Abort (WriteHeaderNow (gin_Status code c))"

definition AbortWithError :: "nat \<Rightarrow> go_error \<Rightarrow> gin_Context \<Rightarrow> gin_Context" where
  "AbortWithError code err c =
     (let c1 = AbortWithStatus code c in c1\<lparr>ctx_Errors := ctx_Errors c1 @ [err]\<rparr>)"

text \<open>
  \<open>c.Bind\<close> is the must-bind variant of gin's binding (\<open>MustBindWith\<close>, as opposed to
  \<open>ShouldBind\<close>): when the body does not bind it calls
  \<open>c.AbortWithError(http.StatusBadRequest, err)\<close>, which sets status 400, sends the
  header and aborts the context, and then returns the error. The handlers of main.go drop
  the returned error and go on; the status they set afterwards meets a header that is
  already sent (see \<open>gin_Status\<close>). The first component of the result is the struct
  as the decoder left it.
\<close>

definition gin_Bind :: "(request \<Rightarrow> 'a \<times> go_error option) \<Rightarrow> gin_Context \<Rightarrow> 'a \<times> gin_Context" where
  "gin_Bind decode c =
     (case decode (Request c) of
        (v, None) \<Rightarrow> (v, c)
      | (v, Some err) \<Rightarrow> (v, AbortWithError StatusBadRequest err c))"

definition gin_Set :: "string \<Rightarrow> addr \<Rightarrow> gin_Context \<Rightarrow> gin_Context" where
  "gin_Set k p c = c\<lparr>Keys := (Keys c)(k \<mapsto> p)\<rparr>"

definition gin_Get :: "gin_Context \<Rightarrow> string \<Rightarrow> addr option" where
  "gin_Get c k = Keys c k"

definition Recovery :: "machine \<Rightarrow> gin_Context \<Rightarrow> machine \<times> gin_Context" where
  \<comment> \<open>the recovery middleware of \<open>gin.Default()\<close>: a panic in a handler ends the request
      with \<open>AbortWithStatus(500)\<close>\<close>
  "Recovery m c = (m, AbortWithStatus StatusInternalServerError c)"

definition get_state :: "machine \<Rightarrow> gin_Context \<Rightarrow> AppState option" where
  \<comment> \<open>\<open>appState, _ := c.Get("state"); state := appState.(*AppState)\<close> and the read of
      \<open>state.MsgClient\<close>: \<open>None\<close> is the panic of the type assertion on a missing key or
      of the nil dereference\<close>
  "get_state m c = (case gin_Get c ''state'' of None \<Rightarrow> None | Some p \<Rightarrow> heap m p)"

subsection \<open>The handlers (main.go, lines 72 to 195)\<close>

type_synonym handler = "machine \<Rightarrow> gin_Context \<Rightarrow> machine \<times> gin_Context"

text \<open>
  Both middlewares end with \<open>c.Next()\<close> as their last statement. Calling \<open>Next\<close> there
  runs the rest of the chain, which is what gin does anyway when a handler that has not
  aborted returns (see \<open>run_handlers\<close> below); so the call is modelled by returning.
\<close>

definition StateMiddleware :: "addr \<Rightarrow> handler" where
  "StateMiddleware state m c = (m, gin_Set ''state'' state c)"

definition publishDryRun :: "externals \<Rightarrow> handler" where
  "publishDryRun X m ctx0 =
     (let (p, ctx) = gin_Bind (bind_Publish X) ctx0;
          registrationToken = p_Token p;
          notification = \<lparr>n_Title = Title (p_Notification p), n_Body = Body (p_Notification p),
                          n_ImageURL = []\<rparr>;
          m1 = log_Info (''notification is '' @ fmt_v_Notification notification) [] m;
          message = \<lparr>m_Notification = Some notification, m_Token = registrationToken,
                     m_Topic = [], m_Condition = []\<rparr>
      in case get_state m1 ctx of
           None \<Rightarrow> Recovery m1 ctx
         | Some state \<Rightarrow>
             (let m2 = invoke (SendCall (MsgClient state) message) m1
              in case fcm_Send X (MsgClient state) message of
                   Inl err \<Rightarrow>
                     (log_Error ''error sending message'' [(''error'', LText err)] m2,
                      gin_JSON StatusBadGateway
                        [(''error'', ''error found while publishing message: '' @ err)] ctx)
                 | Inr response \<Rightarrow>
                     (log_Info (''Successfully sent message: '' @ response) [] m2,
                      gin_Status StatusAccepted ctx)))"

definition BroadcastMsg :: "externals \<Rightarrow> handler" where
  "BroadcastMsg X m c0 =
     (let (b, c) = gin_Bind (bind_Broadcast X) c0;
          notification = \<lparr>n_Title = Title (b_Notification b), n_Body = Body (b_Notification b),
                          n_ImageURL = []\<rparr>;
          message = \<lparr>m_Notification = Some notification, m_Token = [],
                     m_Topic = b_Topic b, m_Condition = []\<rparr>
      in case get_state m c of
           None \<Rightarrow> Recovery m c
         | Some state \<Rightarrow>
             (let m2 = invoke (SendCall (MsgClient state) message) m
              in case fcm_Send X (MsgClient state) message of
                   Inl err \<Rightarrow>
                     (log_Error ''error broadcasting message'' [(''error'', LText err)] m2,
                      gin_JSON StatusBadGateway
                        [(''error'', ''error found while broadcasting message: '' @ err)] c)
                 | Inr response \<Rightarrow>
                     (log_Info ''Successfully broadcasted message'' [(''resp'', LText response)] m2,
                      gin_Status StatusAccepted c)))"

text \<open>
  The loop \<open>for _, err := range response.Errors\<close> of the two topic handlers, with the
  string builder as accumulator.
\<close>

fun write_errors :: "string \<Rightarrow> ErrorInfo list \<Rightarrow> string" where
  "write_errors sb [] = sb"
| "write_errors sb (err # errs) =
     write_errors (sb @ ''Code: '' @ fmt_d (Index err) @ '', Message: '' @ Reason err) errs"

definition SubscribeToTopic :: "externals \<Rightarrow> handler" where
  "SubscribeToTopic X m c0 =
     (let (s, c) = gin_Bind (bind_Subscribe X) c0
      in case get_state m c of
           None \<Rightarrow> Recovery m c
         | Some state \<Rightarrow>
             (let m2 = invoke (SubscribeCall (MsgClient state) (s_Tokens s) (s_Topic s)) m
              in case fcm_Subscribe X (MsgClient state) (s_Tokens s) (s_Topic s) of
                   Inl err \<Rightarrow>
                     (log_Error ''error while subscribing to topic'' [(''error'', LText err)] m2,
                      gin_JSON StatusBadGateway
                        [(''error'', ''error found while subscribing to topic: '' @ err)] c)
                 | Inr response \<Rightarrow>
                     if FailureCount response \<noteq> 0
                     then (let sb = write_errors [] (Errors response)
                           in (log_Error ''error while subscribing to topic''
                                 [(''errors'', LText sb)] m2,
                               gin_JSON StatusBadGateway
                                 [(''errors'', ''errors while subscribing to topic: '' @ sb)] c))
                     else (log_Info ''Successfully subbed to topic'' [(''resp'', LResp response)] m2,
                           gin_Status StatusAccepted c)))"

definition UnsubscribeFromTopic :: "externals \<Rightarrow> handler" where
  "UnsubscribeFromTopic X m c0 =
     (let (s, c) = gin_Bind (bind_Subscribe X) c0
      in case get_state m c of
           None \<Rightarrow> Recovery m c
         | Some state \<Rightarrow>
             (let m2 = invoke (UnsubscribeCall (MsgClient state) (s_Tokens s) (s_Topic s)) m
              in case fcm_Unsubscribe X (MsgClient state) (s_Tokens s) (s_Topic s) of
                   Inl err \<Rightarrow>
                     (log_Error ''error while unsubscribing from topic'' [(''error'', LText err)] m2,
                      gin_JSON StatusBadGateway
                        [(''error'', ''error found while unsubscribing from topic: '' @ err)] c)
                 | Inr response \<Rightarrow>
                     if FailureCount response \<noteq> 0
                     then (let sb = write_errors [] (Errors response)
                           in (log_Error ''error while subscribing to topic''
                                 [(''errors'', LText sb)] m2,
                               gin_JSON StatusBadGateway
                                 [(''errors'', ''errors while subscribing to topic: '' @ sb)] c))
                     else (log_Info ''Successfully unsubbed from topic'' [(''resp'', LResp response)] m2,
                           gin_Status StatusAccepted c)))"

definition APIKeyAuthMiddleware :: "externals \<Rightarrow> handler" where
  "APIKeyAuthMiddleware X m c =
     (let authHeader = GetHeader c ''Authorization''
      in if authHeader = [] \<or> \<not> HasPrefix authHeader ''Bearer ''
         then (m, gin_Abort (gin_JSON StatusUnauthorized
                 [(''error'', ''Unauthorized: Missing or invalid token'')] c))
         else (let appApiKey = os_Getenv X ''API_KEY'';
                   apiKey = TrimPrefix authHeader ''Bearer ''
               in if apiKey \<noteq> appApiKey
                  then (m, gin_Abort (gin_JSON StatusUnauthorized
                          [(''error'', ''Unauthorized: Invalid API Key'')] c))
                  else (m, c)))"

subsection \<open>The router and the process (main.go, lines 41 to 70)\<close>

text \<open>
  gin runs the handlers of a route in order and stops in front of the first one that
  finds the context aborted.
\<close>

fun run_handlers :: "handler list \<Rightarrow> machine \<Rightarrow> gin_Context \<Rightarrow> machine \<times> gin_Context" where
  "run_handlers [] m c = (m, c)"
| "run_handlers (h # hs) m c =
     (if aborted c then (m, c) else (case h m c of (m', c') \<Rightarrow> run_handlers hs m' c'))"

definition routes :: "(string \<times> (externals \<Rightarrow> handler)) list" where
  "routes = [(''/publish'', publishDryRun), (''/broadcast'', BroadcastMsg),
             (''/subscribe'', SubscribeToTopic), (''/unsubscribe'', UnsubscribeFromTopic)]"

definition middlewares :: "externals \<Rightarrow> addr \<Rightarrow> handler list" where
  "middlewares X state = [APIKeyAuthMiddleware X, StateMiddleware state]"

definition serveError :: "nat \<Rightarrow> string \<Rightarrow> handler list \<Rightarrow> machine \<Rightarrow> gin_Context \<Rightarrow> machine \<times> gin_Context" where
  \<comment> \<open>gin's answer when no route matches: the middlewares run on a context whose status
      is preset, and the default text is written if nothing else was\<close>
  "serveError code defaultMessage hs m c =
     (case run_handlers hs m (c\<lparr>status := code\<rparr>) of
        (m', c') \<Rightarrow>
          if written c' then (m', c')
          else if status c' = code
               then (m', (WriteHeaderNow c')\<lparr>written_body := written_body c' @ [Text_body defaultMessage]\<rparr>)
               else (m', WriteHeaderNow c'))"

record response =
  resp_status :: nat
  resp_body :: "chunk list"

definition response_of :: "gin_Context \<Rightarrow> response" where
  "response_of c = \<lparr>resp_status = status c, resp_body = written_body c\<rparr>"

text \<open>
  One request, served by the router that \<open>main\<close> builds: the two middlewares, then the
  handler registered for the path under POST. A request to one of the four paths with
  another method finds no route and gets gin's 404 after the middlewares. Other paths
  are outside the model (\<open>None\<close>). When the chain is through, gin sends the header if no
  handler did; the result is the new process state and the response sent.
\<close>

definition ServeHTTP :: "externals \<Rightarrow> addr \<Rightarrow> machine \<Rightarrow> request \<Rightarrow> (machine \<times> response) option" where
  "ServeHTTP X state m r =
     (case map_of routes (req_path r) of
        None \<Rightarrow> None
      | Some h \<Rightarrow>
          if req_method r = ''POST''
          then (case run_handlers (middlewares X state @ [h X]) m (new_Context r) of
                  (m', c') \<Rightarrow> Some (m', response_of (WriteHeaderNow c')))
          else (case serveError StatusNotFound ''404 page not found''
                       (middlewares X state) m (new_Context r) of
                  (m', c') \<Rightarrow> Some (m', response_of c')))"

text \<open>
  The process after startup: requests served one after the other, each with the
  environment, the bindings and the provider replies of its time. The memory and the
  traces are handed from one request to the next.
\<close>

fun run_server :: "addr \<Rightarrow> machine \<Rightarrow> (externals \<times> request) list \<Rightarrow> machine \<times> response option list" where
  "run_server state m [] = (m, [])"
| "run_server state m ((X, r) # rest) =
     (case ServeHTTP X state m r of
        None \<Rightarrow> (case run_server state m rest of (m', rs) \<Rightarrow> (m', None # rs))
      | Some (m1, resp) \<Rightarrow>
          (case run_server state m1 rest of (m', rs) \<Rightarrow> (m', Some resp # rs)))"

text \<open>
  \<open>main\<close> up to \<open>router.Run\<close>. Its inputs are the results of \<open>godotenv.Load\<close>,
  \<open>firebase.NewApp\<close> and \<open>app.Messaging\<close>; \<open>log.Fatal\<close> ends the process. The one
  \<open>AppState\<close> is allocated at address 0.
\<close>

datatype startup = Fatal string go_error | Serving machine addr

definition main :: "go_error option \<Rightarrow> go_error + nat \<Rightarrow> (nat \<Rightarrow> go_error + client) \<Rightarrow> startup" where
  "main godotenv_Load firebase_NewApp app_Messaging =
     (case godotenv_Load of
        Some envErr \<Rightarrow> Fatal ''Cannot read .env file'' envErr
      | None \<Rightarrow>
          (case firebase_NewApp of
             Inl err \<Rightarrow> Fatal ''error while starting app'' err
           | Inr app \<Rightarrow>
               (let m = log_Info ''started app'' []
                          \<lparr>heap = Map.empty, provider_calls = [], log_lines = []\<rparr>
                in case app_Messaging app of
                     Inl err \<Rightarrow> Fatal ''Error getting messaging client'' err
                   | Inr client \<Rightarrow>
                       Serving (m\<lparr>heap := (heap m)(0 \<mapsto> \<lparr>MsgClient = client\<rparr>)\<rparr>) 0)))"

subsection \<open>The conditions the properties speak about\<close>

text \<open>
  A request carries a valid bearer header when its \<open>Authorization\<close> header is
  \<open>Bearer\<close>, one space, and the value of \<open>API_KEY\<close> in the environment. This is
  the wording of the interface description, not of the middleware; that the middleware
  decides exactly this is \<open>auth_pass\<close> and \<open>auth_reject\<close> below.
\<close>

definition valid_bearer :: "externals \<Rightarrow> request \<Rightarrow> bool" where
  "valid_bearer X r = (req_header r ''Authorization'' = Some (''Bearer '' @ os_Getenv X ''API_KEY''))"

subsection \<open>Scenarios\<close>

text \<open>
  Concrete requests and worlds on which the theorems below are instantiated. Every
  request is sent as \<open>application/json\<close>, so that gin binds its body with the JSON
  decoder. The bodies named \<open>_mistyped\<close> are JSON objects in which one member has the
  wrong type: the JSON decoder fills the other fields, leaves the mistyped one as it was,
  and reports the error. \<open>publish_truncated\<close> is not JSON at all and leaves the struct
  at its zero value.
\<close>

definition json_headers :: "string \<Rightarrow> string \<rightharpoonup> string" where
  "json_headers h = [''Authorization'' \<mapsto> h, ''Content-Type'' \<mapsto> ''application/json'']"

definition publish_ok :: request where
  \<open>publish_ok = \<lparr>req_method = ''POST'', req_path = ''/publish'',
     req_header = json_headers ''Bearer secret123'',
     req_body = ''{"to":"tok_abc","notification":{"title":"Hi","body":"There"}}''\<rparr>\<close>

definition publish_wrong_key :: request where
  "publish_wrong_key = publish_ok\<lparr>req_header := json_headers ''Bearer wrong''\<rparr>"

definition publish_empty_key :: request where
  "publish_empty_key = publish_ok\<lparr>req_header := json_headers ''Bearer ''\<rparr>"

definition publish_mistyped :: request where
  \<open>publish_mistyped = publish_ok\<lparr>req_body := ''{"to":"tok_abc","notification":"Hi"}''\<rparr>\<close>

definition publish_truncated :: request where
  \<open>publish_truncated = publish_ok\<lparr>req_body := ''{"to":''\<rparr>\<close>

definition broadcast_ok :: request where
  \<open>broadcast_ok = \<lparr>req_method = ''POST'', req_path = ''/broadcast'',
     req_header = json_headers ''Bearer secret123'',
     req_body = ''{"topic":"news","notification":{"title":"Hi","body":"There"}}''\<rparr>\<close>

definition subscribe_ok :: request where
  \<open>subscribe_ok = \<lparr>req_method = ''POST'', req_path = ''/subscribe'',
     req_header = json_headers ''Bearer secret123'',
     req_body = ''{"tokens":["t1","t2"],"topic":"news"}''\<rparr>\<close>

definition subscribe_mistyped :: request where
  \<open>subscribe_mistyped = subscribe_ok\<lparr>req_body := ''{"tokens":["t1","t2"],"topic":"news","topic":7}''\<rparr>\<close>

definition subscribe_many :: request where
  \<open>subscribe_many = subscribe_ok\<lparr>req_body := ''{"tokens":["t1","t2","t3","t4"],"topic":"news"}''\<rparr>\<close>

definition unsubscribe_ok :: request where
  "unsubscribe_ok = subscribe_ok\<lparr>req_path := ''/unsubscribe''\<rparr>"

text \<open>
  The binding of these requests. A request that is not sent as \<open>application/json\<close>
  goes to the form decoder, which finds no field in it: the struct stays at its zero
  value and no error is reported. Under \<open>application/json\<close> the stubs give what the
  JSON decoder gives on the bodies of the scenarios and on the empty body; their last
  branch stands for a body that breaks off.
\<close>

definition sent_as_json :: "request \<Rightarrow> bool" where
  "sent_as_json r = (req_header r ''Content-Type'' = Some ''application/json'')"

definition demo_bind_Publish :: "request \<Rightarrow> PublishInput \<times> go_error option" where
  "demo_bind_Publish r =
     (if \<not> sent_as_json r then (zero_PublishInput, None)
      else if req_body r = req_body publish_ok
      then (\<lparr>p_Token = ''tok_abc'', p_Notification = \<lparr>Title = ''Hi'', Body = ''There''\<rparr>\<rparr>, None)
      else if req_body r = req_body publish_mistyped
      then (\<lparr>p_Token = ''tok_abc'', p_Notification = zero_Notification\<rparr>,
            Some ''json: cannot unmarshal string into Go struct field PublishInput.notification of type main.Notification'')
      else if req_body r = [] then (zero_PublishInput, Some ''EOF'')
      else (zero_PublishInput, Some ''unexpected EOF''))"

definition demo_bind_Broadcast :: "request \<Rightarrow> BroadCastInput \<times> go_error option" where
  "demo_bind_Broadcast r =
     (if \<not> sent_as_json r then (zero_BroadCastInput, None)
      else if req_body r = req_body broadcast_ok
      then (\<lparr>b_Topic = ''news'', b_Notification = \<lparr>Title = ''Hi'', Body = ''There''\<rparr>\<rparr>, None)
      else if req_body r = [] then (zero_BroadCastInput, Some ''EOF'')
      else (zero_BroadCastInput, Some ''unexpected EOF''))"

definition demo_bind_Subscribe :: "request \<Rightarrow> SubscribeInput \<times> go_error option" where
  "demo_bind_Subscribe r =
     (if \<not> sent_as_json r then (zero_SubscribeInput, None)
      else if req_body r = req_body subscribe_ok
      then (\<lparr>s_Tokens = [''t1'', ''t2''], s_Topic = ''news''\<rparr>, None)
      else if req_body r = req_body subscribe_many
      then (\<lparr>s_Tokens = [''t1'', ''t2'', ''t3'', ''t4''], s_Topic = ''news''\<rparr>, None)
      else if req_body r = req_body subscribe_mistyped
      then (\<lparr>s_Tokens = [''t1'', ''t2''], s_Topic = ''news''\<rparr>,
            Some ''json: cannot unmarshal number into Go struct field SubscribeInput.topic of type string'')
      else if req_body r = [] then (zero_SubscribeInput, Some ''EOF'')
      else (zero_SubscribeInput, Some ''unexpected EOF''))"

text \<open>
  A provider that accepts what is addressed and, like the Firebase client, refuses a
  message without target and an empty token list before sending anything.
\<close>

definition demo_Send :: "client \<Rightarrow> messaging_Message \<Rightarrow> go_error + string" where
  "demo_Send cl message =
     (if m_Token message = [] \<and> m_Topic message = [] \<and> m_Condition message = []
      then Inl ''exactly one of token, topic or condition must be specified''
      else Inr ''msg1'')"

definition demo_Manage :: "client \<Rightarrow> string list \<Rightarrow> string \<Rightarrow> go_error + TopicManagementResponse" where
  "demo_Manage cl tokens topic =
     (if tokens = [] then Inl ''no tokens specified''
      else Inr \<lparr>SuccessCount = int (length tokens), FailureCount = 0, Errors = []\<rparr>)"

definition demo_world :: externals where
  "demo_world = \<lparr>environ = [''API_KEY'' \<mapsto> ''secret123''],
     bind_Publish = demo_bind_Publish, bind_Broadcast = demo_bind_Broadcast,
     bind_Subscribe = demo_bind_Subscribe,
     fcm_Send = demo_Send, fcm_Subscribe = demo_Manage, fcm_Unsubscribe = demo_Manage\<rparr>"

text \<open>The provider cannot be reached.\<close>

definition world_down :: externals where
  "world_down = demo_world\<lparr>fcm_Send := (\<lambda>cl message. Inl ''connection refused''),
     fcm_Subscribe := (\<lambda>cl tokens topic. Inl ''connection refused''),
     fcm_Unsubscribe := (\<lambda>cl tokens topic. Inl ''connection refused'')\<rparr>"

text \<open>The provider reports the second token as not registered.\<close>

definition partial_reply :: TopicManagementResponse where
  "partial_reply = \<lparr>SuccessCount = 1, FailureCount = 1,
     Errors = [\<lparr>Index = 1, Reason = ''invalid-registration-token''\<rparr>]\<rparr>"

definition world_partial :: externals where
  "world_partial = demo_world\<lparr>fcm_Subscribe := (\<lambda>cl tokens topic. Inr partial_reply),
     fcm_Unsubscribe := (\<lambda>cl tokens topic. Inr partial_reply)\<rparr>"

text \<open>The provider reports three of four tokens as failed.\<close>

definition many_reply :: TopicManagementResponse where
  "many_reply = \<lparr>SuccessCount = 1, FailureCount = 3,
     Errors = [\<lparr>Index = 0, Reason = ''invalid-argument''\<rparr>,
               \<lparr>Index = 2, Reason = ''registration-token-not-registered''\<rparr>,
               \<lparr>Index = 3, Reason = ''internal-error''\<rparr>]\<rparr>"

definition world_many :: externals where
  "world_many = demo_world\<lparr>fcm_Subscribe := (\<lambda>cl tokens topic. Inr many_reply),
     fcm_Unsubscribe := (\<lambda>cl tokens topic. Inr many_reply)\<rparr>"

text \<open>\<open>API_KEY\<close> is not set.\<close>

definition world_no_key :: externals where
  "world_no_key = demo_world\<lparr>environ := Map.empty\<rparr>"

text \<open>The process state that \<open>main\<close> leaves when startup succeeds with client 7.\<close>

definition demo_Messaging :: "nat \<Rightarrow> go_error + client" where
  "demo_Messaging app = Inr 7"

definition demo_machine :: machine where
  "demo_machine = \<lparr>heap = [0 \<mapsto> \<lparr>MsgClient = 7\<rparr>], provider_calls = [],
     log_lines = [\<lparr>level = Info, msg = ''started app'', keyvals = []\<rparr>]\<rparr>"

section \<open>Properties\<close>

subsection \<open>Unfolding sets and the behaviour of each component\<close>

lemmas status_defs = StatusOK_def StatusAccepted_def StatusBadRequest_def StatusUnauthorized_def
  StatusNotFound_def StatusInternalServerError_def StatusBadGateway_def

lemmas gin_defs = gin_Status_def WriteHeaderNow_def bodyAllowedForStatus_def gin_JSON_def
  gin_Abort_def AbortWithStatus_def AbortWithError_def gin_Set_def gin_Get_def new_Context_def
  GetHeader_def

lemma HasPrefix_iff: "HasPrefix s p \<longleftrightarrow> take (length p) s = p"
  by (induction s p rule: HasPrefix.induct) auto

lemma bearer_decision:
  "p \<noteq> [] \<Longrightarrow> (\<not> (h = [] \<or> \<not> HasPrefix h p) \<and> \<not> TrimPrefix h p \<noteq> k) \<longleftrightarrow> h = p @ k"
  unfolding TrimPrefix_def HasPrefix_iff
  by (metis append_eq_conv_conj append_is_Nil_conv)

lemma GetHeader_valid:
  "valid_bearer X (Request c) \<longleftrightarrow> GetHeader c ''Authorization'' = ''Bearer '' @ os_Getenv X ''API_KEY''"
  unfolding valid_bearer_def GetHeader_def
  by (cases "req_header (Request c) ''Authorization''") simp_all


lemma auth_pass:
  assumes "valid_bearer X (Request c)"
  shows "APIKeyAuthMiddleware X m c = (m, c)"
proof -
  let ?h = "GetHeader c ''Authorization''"
  have "?h = ''Bearer '' @ os_Getenv X ''API_KEY''"
    using assms by (simp only: GetHeader_valid)
  then have "\<not> (?h = [] \<or> \<not> HasPrefix ?h ''Bearer '') \<and> \<not> TrimPrefix ?h ''Bearer '' \<noteq> os_Getenv X ''API_KEY''"
    by (subst bearer_decision) simp_all
  then show ?thesis
    unfolding APIKeyAuthMiddleware_def Let_def by (simp only: if_False)
qed

lemma auth_reject:
  assumes "\<not> valid_bearer X (Request c)"
  shows "\<exists>msg. APIKeyAuthMiddleware X m c =
           (m, gin_Abort (gin_JSON StatusUnauthorized [(''error'', msg)] c))"
proof -
  let ?h = "GetHeader c ''Authorization''"
  have "?h \<noteq> ''Bearer '' @ os_Getenv X ''API_KEY''"
    using assms by (simp only: GetHeader_valid not_False_eq_True)
  then have "\<not> (\<not> (?h = [] \<or> \<not> HasPrefix ?h ''Bearer '') \<and> \<not> TrimPrefix ?h ''Bearer '' \<noteq> os_Getenv X ''API_KEY'')"
    by (subst bearer_decision) simp_all
  then consider "?h = [] \<or> \<not> HasPrefix ?h ''Bearer ''"
    | "\<not> (?h = [] \<or> \<not> HasPrefix ?h ''Bearer '')" "TrimPrefix ?h ''Bearer '' \<noteq> os_Getenv X ''API_KEY''"
    by blast
  then show ?thesis
  proof cases
    case 1
    then show ?thesis unfolding APIKeyAuthMiddleware_def Let_def by (simp only: if_True) blast
  next
    case 2
    then show ?thesis unfolding APIKeyAuthMiddleware_def Let_def by (simp only: if_True if_False not_False_eq_True) blast
  qed
qed

lemma reject_response:
  "\<not> written c \<Longrightarrow> gin_Abort (gin_JSON StatusUnauthorized obj c) =
     c\<lparr>status := 401, written := True, written_body := written_body c @ [JSON_body obj], aborted := True\<rparr>"
  by (simp add: gin_defs status_defs Let_def)


lemma chain_reject:
  assumes "\<not> valid_bearer X (Request c)" "\<not> aborted c"
  shows "\<exists>msg. run_handlers (APIKeyAuthMiddleware X # hs) m c =
           (m, gin_Abort (gin_JSON StatusUnauthorized [(''error'', msg)] c))"
proof -
  obtain msg where a: "APIKeyAuthMiddleware X m c =
      (m, gin_Abort (gin_JSON StatusUnauthorized [(''error'', msg)] c))"
    using auth_reject [OF assms(1)] by blast
  have "aborted (gin_Abort (gin_JSON StatusUnauthorized [(''error'', msg)] c))"
    by (simp add: gin_Abort_def)
  then have "run_handlers (APIKeyAuthMiddleware X # hs) m c =
      (m, gin_Abort (gin_JSON StatusUnauthorized [(''error'', msg)] c))"
    using assms(2) a by (cases hs) simp_all
  then show ?thesis by blast
qed

lemma chain_pass:
  assumes "valid_bearer X r"
  shows "run_handlers (middlewares X state @ [h]) m (new_Context r) =
           h m (gin_Set ''state'' state (new_Context r))"
proof -
  have "Request (new_Context r) = r" "\<not> aborted (new_Context r)"
    by (simp_all add: new_Context_def)
  then have "APIKeyAuthMiddleware X m (new_Context r) = (m, new_Context r)"
    using assms auth_pass by simp
  then show ?thesis
    by (simp add: middlewares_def StateMiddleware_def gin_Set_def new_Context_def split: prod.splits)
qed

lemma serve_unauthorized:
  assumes "map_of routes (req_path r) = Some h" "\<not> valid_bearer X r"
  shows "\<exists>msg. ServeHTTP X state m r =
           Some (m, \<lparr>resp_status = 401, resp_body = [JSON_body [(''error'', msg)]]\<rparr>)"
proof -
  let ?c = "new_Context r"
  have fresh: "Request ?c = r" "\<not> aborted ?c" "\<not> written ?c" "written_body ?c = []"
    by (simp_all add: new_Context_def)
  show ?thesis
  proof (cases "req_method r = ''POST''")
    case True
    obtain msg where "run_handlers (middlewares X state @ [h X]) m ?c =
        (m, gin_Abort (gin_JSON StatusUnauthorized [(''error'', msg)] ?c))"
      using chain_reject [of X ?c _ m] assms(2) fresh unfolding middlewares_def by auto
    then have "ServeHTTP X state m r =
        Some (m, \<lparr>resp_status = 401, resp_body = [JSON_body [(''error'', msg)]]\<rparr>)"
      using True assms(1) fresh
      by (simp add: ServeHTTP_def reject_response response_of_def WriteHeaderNow_def)
    then show ?thesis by blast
  next
    case False
    let ?d = "?c\<lparr>status := StatusNotFound\<rparr>"
    have "Request ?d = r" "\<not> aborted ?d" by (simp_all add: new_Context_def)
    then obtain msg where "run_handlers (middlewares X state) m ?d =
        (m, gin_Abort (gin_JSON StatusUnauthorized [(''error'', msg)] ?d))"
      using chain_reject [of X ?d _ m] assms(2) unfolding middlewares_def by auto
    then have "ServeHTTP X state m r =
        Some (m, \<lparr>resp_status = 401, resp_body = [JSON_body [(''error'', msg)]]\<rparr>)"
      using False assms(1) fresh
      by (simp add: ServeHTTP_def serveError_def reject_response response_of_def)
    then show ?thesis by blast
  qed
qed

lemma route_paths:
  "p \<in> {''/publish'', ''/broadcast'', ''/subscribe'', ''/unsubscribe''} \<Longrightarrow> \<exists>h. map_of routes p = Some h"
  by (auto simp: routes_def)

lemmas handler_defs = gin_Bind_def get_state_def Recovery_def invoke_def log_Info_def log_Error_def
  response_of_def

lemma serve_authorized:
  assumes "valid_bearer X r" "req_method r = ''POST''" "map_of routes (req_path r) = Some h"
  shows "ServeHTTP X state m r =
           (case h X m (gin_Set ''state'' state (new_Context r)) of
              (m', c') \<Rightarrow> Some (m', response_of (WriteHeaderNow c')))"
  using assms by (simp add: ServeHTTP_def chain_pass)

lemma publish_served:
  assumes "valid_bearer X r" "req_method r = ''POST''" "req_path r = ''/publish''"
    and "heap m state = Some s" "bind_Publish X r = (p, e)"
    and "message = \<lparr>m_Notification = Some \<lparr>n_Title = Title (p_Notification p),
            n_Body = Body (p_Notification p), n_ImageURL = []\<rparr>,
          m_Token = p_Token p, m_Topic = [], m_Condition = []\<rparr>"
  shows "\<exists>m'. ServeHTTP X state m r = Some (m',
           \<lparr>resp_status = (if e \<noteq> None then 400
                            else case fcm_Send X (MsgClient s) message of Inl err \<Rightarrow> 502 | Inr resp \<Rightarrow> 202),
            resp_body = (case fcm_Send X (MsgClient s) message of
                           Inl err \<Rightarrow> [JSON_body [(''error'', ''error found while publishing message: '' @ err)]]
                         | Inr resp \<Rightarrow> [])\<rparr>)
         \<and> provider_calls m' = provider_calls m @ [SendCall (MsgClient s) message]
         \<and> heap m' = heap m"
proof -
  have h: "map_of routes (req_path r) = Some publishDryRun"
    using assms(3) by (simp add: routes_def)
  show ?thesis
    unfolding serve_authorized [OF assms(1,2) h] publishDryRun_def
    using assms(4,5,6)
    by (cases e; cases "fcm_Send X (MsgClient s) message")
       (simp_all add: handler_defs gin_defs status_defs Let_def)
qed


lemma broadcast_served:
  assumes "valid_bearer X r" "req_method r = ''POST''" "req_path r = ''/broadcast''"
    and "heap m state = Some s" "bind_Broadcast X r = (b, e)"
    and "message = \<lparr>m_Notification = Some \<lparr>n_Title = Title (b_Notification b),
            n_Body = Body (b_Notification b), n_ImageURL = []\<rparr>,
          m_Token = [], m_Topic = b_Topic b, m_Condition = []\<rparr>"
  shows "\<exists>m'. ServeHTTP X state m r = Some (m',
           \<lparr>resp_status = (if e \<noteq> None then 400
                            else case fcm_Send X (MsgClient s) message of Inl err \<Rightarrow> 502 | Inr resp \<Rightarrow> 202),
            resp_body = (case fcm_Send X (MsgClient s) message of
                           Inl err \<Rightarrow> [JSON_body [(''error'', ''error found while broadcasting message: '' @ err)]]
                         | Inr resp \<Rightarrow> [])\<rparr>)
         \<and> provider_calls m' = provider_calls m @ [SendCall (MsgClient s) message]
         \<and> heap m' = heap m"
proof -
  have h: "map_of routes (req_path r) = Some BroadcastMsg"
    using assms(3) by (simp add: routes_def)
  show ?thesis
    unfolding serve_authorized [OF assms(1,2) h] BroadcastMsg_def
    using assms(4,5,6)
    by (cases e; cases "fcm_Send X (MsgClient s) message")
       (simp_all add: handler_defs gin_defs status_defs Let_def)
qed

lemma subscribe_served:
  assumes "valid_bearer X r" "req_method r = ''POST''" "req_path r = ''/subscribe''"
    and "heap m state = Some s" "bind_Subscribe X r = (v, e)"
    and "reply = fcm_Subscribe X (MsgClient s) (s_Tokens v) (s_Topic v)"
  shows "\<exists>m'. ServeHTTP X state m r = Some (m',
           \<lparr>resp_status = (if e \<noteq> None then 400
                            else case reply of Inl err \<Rightarrow> 502
                                 | Inr resp \<Rightarrow> if FailureCount resp \<noteq> 0 then 502 else 202),
            resp_body = (case reply of
                           Inl err \<Rightarrow> [JSON_body [(''error'', ''error found while subscribing to topic: '' @ err)]]
                         | Inr resp \<Rightarrow>
                             if FailureCount resp \<noteq> 0
                             then [JSON_body [(''errors'', ''errors while subscribing to topic: ''
                                     @ write_errors [] (Errors resp))]]
                             else [])\<rparr>)
         \<and> provider_calls m' = provider_calls m @ [SubscribeCall (MsgClient s) (s_Tokens v) (s_Topic v)]
         \<and> heap m' = heap m
         \<and> log_lines m' = log_lines m @
             [case reply of
                Inl err \<Rightarrow> \<lparr>level = Error, msg = ''error while subscribing to topic'', keyvals = [(''error'', LText err)]\<rparr>
              | Inr resp \<Rightarrow>
                  if FailureCount resp \<noteq> 0
                  then \<lparr>level = Error, msg = ''error while subscribing to topic'',
                        keyvals = [(''errors'', LText (write_errors [] (Errors resp)))]\<rparr>
                  else \<lparr>level = Info, msg = ''Successfully subbed to topic'', keyvals = [(''resp'', LResp resp)]\<rparr>]"
proof -
  have h: "map_of routes (req_path r) = Some SubscribeToTopic"
    using assms(3) by (simp add: routes_def)
  show ?thesis
    unfolding serve_authorized [OF assms(1,2) h] SubscribeToTopic_def
    using assms(4,5,6)
    by (cases e; cases "fcm_Subscribe X (MsgClient s) (s_Tokens v) (s_Topic v)")
       (simp_all add: handler_defs gin_defs status_defs Let_def)
qed

lemma unsubscribe_served:
  assumes "valid_bearer X r" "req_method r = ''POST''" "req_path r = ''/unsubscribe''"
    and "heap m state = Some s" "bind_Subscribe X r = (v, e)"
    and "reply = fcm_Unsubscribe X (MsgClient s) (s_Tokens v) (s_Topic v)"
  shows "\<exists>m'. ServeHTTP X state m r = Some (m',
           \<lparr>resp_status = (if e \<noteq> None then 400
                            else case reply of Inl err \<Rightarrow> 502
                                 | Inr resp \<Rightarrow> if FailureCount resp \<noteq> 0 then 502 else 202),
            resp_body = (case reply of
                           Inl err \<Rightarrow> [JSON_body [(''error'', ''error found while unsubscribing from topic: '' @ err)]]
                         | Inr resp \<Rightarrow>
                             if FailureCount resp \<noteq> 0
                             then [JSON_body [(''errors'', ''errors while subscribing to topic: ''
                                     @ write_errors [] (Errors resp))]]
                             else [])\<rparr>)
         \<and> provider_calls m' = provider_calls m @ [UnsubscribeCall (MsgClient s) (s_Tokens v) (s_Topic v)]
         \<and> heap m' = heap m
         \<and> log_lines m' = log_lines m @
             [case reply of
                Inl err \<Rightarrow> \<lparr>level = Error, msg = ''error while unsubscribing from topic'', keyvals = [(''error'', LText err)]\<rparr>
              | Inr resp \<Rightarrow>
                  if FailureCount resp \<noteq> 0
                  then \<lparr>level = Error, msg = ''error while subscribing to topic'',
                        keyvals = [(''errors'', LText (write_errors [] (Errors resp)))]\<rparr>
                  else \<lparr>level = Info, msg = ''Successfully unsubbed from topic'', keyvals = [(''resp'', LResp resp)]\<rparr>]"
proof -
  have h: "map_of routes (req_path r) = Some UnsubscribeFromTopic"
    using assms(3) by (simp add: routes_def)
  show ?thesis
    unfolding serve_authorized [OF assms(1,2) h] UnsubscribeFromTopic_def
    using assms(4,5,6)
    by (cases e; cases "fcm_Unsubscribe X (MsgClient s) (s_Tokens v) (s_Topic v)")
       (simp_all add: handler_defs gin_defs status_defs Let_def)
qed

lemma write_errors_concat:
  "write_errors sb errs =
     sb @ concat (map (\<lambda>err. ''Code: '' @ fmt_d (Index err) @ '', Message: '' @ Reason err) errs)"
  by (induction errs arbitrary: sb) simp_all


lemmas scenario_defs = json_headers_def sent_as_json_def subscribe_many_def many_reply_def
  world_many_def publish_ok_def publish_wrong_key_def publish_empty_key_def
  publish_mistyped_def publish_truncated_def broadcast_ok_def subscribe_ok_def
  subscribe_mistyped_def unsubscribe_ok_def demo_bind_Publish_def demo_bind_Broadcast_def
  demo_bind_Subscribe_def demo_Send_def demo_Manage_def demo_world_def world_down_def
  partial_reply_def world_partial_def world_no_key_def demo_Messaging_def demo_machine_def
  zero_Notification_def zero_PublishInput_def zero_BroadCastInput_def zero_SubscribeInput_def

lemmas eval_defs = ServeHTTP_def routes_def middlewares_def APIKeyAuthMiddleware_def
  StateMiddleware_def publishDryRun_def BroadcastMsg_def SubscribeToTopic_def
  UnsubscribeFromTopic_def serveError_def handler_defs gin_defs status_defs TrimPrefix_def
  os_Getenv_def fmt_v_Notification_def Let_def

lemma serve_reaches_handler:
  assumes "valid_bearer X r" "req_method r = ''POST''" "heap m state = Some s"
    and "req_path r \<in> {''/publish'', ''/broadcast'', ''/subscribe'', ''/unsubscribe''}"
  shows "\<exists>m' resp call. ServeHTTP X state m r = Some (m', resp)
           \<and> resp_status resp \<in> {202, 400, 502}
           \<and> provider_calls m' = provider_calls m @ [call]
           \<and> call_client call = MsgClient s
           \<and> heap m' = heap m"
proof -
  consider "req_path r = ''/publish''" | "req_path r = ''/broadcast''"
    | "req_path r = ''/subscribe''" | "req_path r = ''/unsubscribe''"
    using assms(4) by blast
  then show ?thesis
  proof cases
    case 1
    obtain p e where b: "bind_Publish X r = (p, e)" by (cases "bind_Publish X r")
    show ?thesis
      using publish_served [where m = m, OF assms(1,2) 1 assms(3) b refl]
      by (auto split: sum.splits)
  next
    case 2
    obtain b e where b: "bind_Broadcast X r = (b, e)" by (cases "bind_Broadcast X r")
    show ?thesis
      using broadcast_served [where m = m, OF assms(1,2) 2 assms(3) b refl]
      by (auto split: sum.splits)
  next
    case 3
    obtain v e where b: "bind_Subscribe X r = (v, e)" by (cases "bind_Subscribe X r")
    show ?thesis
      using subscribe_served [where m = m, OF assms(1,2) 3 assms(3) b refl]
      by (auto split: sum.splits)
  next
    case 4
    obtain v e where b: "bind_Subscribe X r = (v, e)" by (cases "bind_Subscribe X r")
    show ?thesis
      using unsubscribe_served [where m = m, OF assms(1,2) 4 assms(3) b refl]
      by (auto split: sum.splits)
  qed
qed


lemma route_handlers:
  "map_of routes p = Some h \<Longrightarrow>
     p \<in> {''/publish'', ''/broadcast'', ''/subscribe'', ''/unsubscribe''}
     \<and> h \<in> {publishDryRun, BroadcastMsg, SubscribeToTopic, UnsubscribeFromTopic}"
  by (auto simp: routes_def split: if_splits)

lemma panic_frame:
  assumes "h \<in> {publishDryRun, BroadcastMsg, SubscribeToTopic, UnsubscribeFromTopic}"
    and "heap m state = None"
  shows "heap (fst (h X m (gin_Set ''state'' state (new_Context r)))) = heap m
         \<and> provider_calls (fst (h X m (gin_Set ''state'' state (new_Context r)))) = provider_calls m"
proof -
  have "h = publishDryRun \<or> h = BroadcastMsg \<or> h = SubscribeToTopic \<or> h = UnsubscribeFromTopic"
    using assms(1) by blast
  then show ?thesis
  proof (elim disjE)
    assume "h = publishDryRun"
    then show ?thesis using assms(2)
      by (cases "bind_Publish X r"; cases "snd (bind_Publish X r)")
         (simp_all add: publishDryRun_def handler_defs gin_defs Let_def)
  next
    assume "h = BroadcastMsg"
    then show ?thesis using assms(2)
      by (cases "bind_Broadcast X r"; cases "snd (bind_Broadcast X r)")
         (simp_all add: BroadcastMsg_def handler_defs gin_defs Let_def)
  next
    assume "h = SubscribeToTopic"
    then show ?thesis using assms(2)
      by (cases "bind_Subscribe X r"; cases "snd (bind_Subscribe X r)")
         (simp_all add: SubscribeToTopic_def handler_defs gin_defs Let_def)
  next
    assume "h = UnsubscribeFromTopic"
    then show ?thesis using assms(2)
      by (cases "bind_Subscribe X r"; cases "snd (bind_Subscribe X r)")
         (simp_all add: UnsubscribeFromTopic_def handler_defs gin_defs Let_def)
  qed
qed

lemma middlewares_pass:
  assumes "valid_bearer X (Request c)" "\<not> aborted c"
  shows "run_handlers (middlewares X state) m c = (m, gin_Set ''state'' state c)"
  using assms auth_pass [OF assms(1), where m = m]
  by (simp add: middlewares_def StateMiddleware_def gin_Set_def)

lemma serve_frame:
  assumes "ServeHTTP X state m r = Some (m', resp)"
  shows "heap m' = heap m
         \<and> (\<exists>new. provider_calls m' = provider_calls m @ new
               \<and> (\<forall>call\<in>set new. \<exists>s. heap m state = Some s \<and> call_client call = MsgClient s))"
proof -
  obtain h where h: "map_of routes (req_path r) = Some h"
    using assms by (cases "map_of routes (req_path r)") (simp_all add: ServeHTTP_def)
  show ?thesis
  proof (cases "valid_bearer X r")
    case False
    then have "m' = m" using serve_unauthorized [OF h False, of state m] assms by auto
    then show ?thesis by simp
  next
    case True
    show ?thesis
    proof (cases "req_method r = ''POST''")
      case False
      have "run_handlers (middlewares X state) m ((new_Context r)\<lparr>status := StatusNotFound\<rparr>)
              = (m, gin_Set ''state'' state ((new_Context r)\<lparr>status := StatusNotFound\<rparr>))"
        using True by (intro middlewares_pass) (simp_all add: new_Context_def)
      then have "m' = m"
        using assms h False by (simp add: ServeHTTP_def serveError_def split: if_splits)
      then show ?thesis by simp
    next
      case post: True
      show ?thesis
      proof (cases "heap m state")
        case (Some s)
        then show ?thesis
          using serve_reaches_handler [OF True post Some] route_handlers [OF h] assms
          by auto
      next
        case None
        have "m' = fst (h X m (gin_Set ''state'' state (new_Context r)))"
          using assms serve_authorized [OF True post h, of state m] by (auto split: prod.splits)
        then show ?thesis
          using panic_frame [OF _ None, of h X r] route_handlers [OF h] by simp
      qed
    qed
  qed
qed

lemma run_server_frame:
  "heap (fst (run_server state m inputs)) = heap m
   \<and> (\<exists>new. provider_calls (fst (run_server state m inputs)) = provider_calls m @ new
         \<and> (\<forall>call\<in>set new. \<exists>s. heap m state = Some s \<and> call_client call = MsgClient s))"
proof (induction inputs arbitrary: m)
  case Nil
  show ?case by simp
next
  case (Cons a inputs)
  obtain X r where a: "a = (X, r)" by (cases a)
  show ?case
  proof (cases "ServeHTTP X state m r")
    case None
    then have "fst (run_server state m (a # inputs)) = fst (run_server state m inputs)"
      using a by (simp split: prod.splits)
    then show ?thesis using Cons.IH [of m] by simp
  next
    case (Some mr)
    obtain m1 resp where mr: "mr = (m1, resp)" by (cases mr)
    have step: "fst (run_server state m (a # inputs)) = fst (run_server state m1 inputs)"
      using Some a mr by (simp split: prod.splits)
    obtain new1 where f1: "heap m1 = heap m" "provider_calls m1 = provider_calls m @ new1"
        "\<forall>call\<in>set new1. \<exists>s. heap m state = Some s \<and> call_client call = MsgClient s"
      using serve_frame [of X state m r m1 resp] Some mr by auto
    obtain new2 where f2: "heap (fst (run_server state m1 inputs)) = heap m1"
        "provider_calls (fst (run_server state m1 inputs)) = provider_calls m1 @ new2"
        "\<forall>call\<in>set new2. \<exists>s. heap m1 state = Some s \<and> call_client call = MsgClient s"
      using Cons.IH [of m1] by auto
    have "provider_calls (fst (run_server state m1 inputs)) = provider_calls m @ (new1 @ new2)"
      using f1(2) f2(2) by simp
    moreover have "\<forall>call\<in>set (new1 @ new2). \<exists>s. heap m state = Some s \<and> call_client call = MsgClient s"
      using f1(1,3) f2(3) by auto
    ultimately show ?thesis
      unfolding step using f1(1) f2(1) by metis
  qed
qed


lemma main_serving:
  assumes "main dotenv newApp messaging = Serving m0 state"
  shows "\<exists>cl. state = 0 \<and> heap m0 = [0 \<mapsto> \<lparr>MsgClient = cl\<rparr>] \<and> provider_calls m0 = []"
  using assms
  by (auto simp: main_def log_Info_def Let_def split: option.splits sum.splits)

text \<open>
  The same broken body without a \<open>Content-Type\<close> header is not given to the JSON
  decoder: nothing is bound, no error is reported, and the provider's refusal of the
  empty message is answered with 502.
\<close>

lemma form_binding_scenario:
  "map_option snd (ServeHTTP demo_world 0 demo_machine
      (publish_truncated\<lparr>req_header := [''Authorization'' \<mapsto> ''Bearer secret123'']\<rparr>))
     = Some \<lparr>resp_status = 502,
              resp_body = [JSON_body [(''error'', ''error found while publishing message: exactly one of token, topic or condition must be specified'')]]\<rparr>"
  by (simp add: scenario_defs valid_bearer_def eval_defs)

subsection \<open>Authentication\<close>

text \<open>
  C1. A request to one of the four endpoints without a valid bearer header (the header
  is missing, is not of the \<open>Bearer\<close> scheme, or carries another value than
  \<open>API_KEY\<close>) is answered with status 401 and a JSON body with one member \<open>error\<close>,
  and the messaging client is not called for it. This holds for every method.
\<close>

theorem unauthorized_rejected:
  assumes "req_path r \<in> {''/publish'', ''/broadcast'', ''/subscribe'', ''/unsubscribe''}"
    and "\<not> valid_bearer X r"
  shows "\<exists>m' msg. ServeHTTP X state m r =
           Some (m', \<lparr>resp_status = StatusUnauthorized, resp_body = [JSON_body [(''error'', msg)]]\<rparr>)
         \<and> provider_calls m' = provider_calls m"
proof -
  obtain h where "map_of routes (req_path r) = Some h"
    using route_paths [OF assms(1)] by blast
  then show ?thesis
    using serve_unauthorized [OF _ assms(2), of h state m] by (auto simp: StatusUnauthorized_def)
qed

theorem unauthorized_rejected_witness:
  "req_path publish_wrong_key \<in> {''/publish'', ''/broadcast'', ''/subscribe'', ''/unsubscribe''}
   \<and> \<not> valid_bearer demo_world publish_wrong_key
   \<and> (\<exists>m' msg. ServeHTTP demo_world 0 demo_machine publish_wrong_key =
           Some (m', \<lparr>resp_status = StatusUnauthorized, resp_body = [JSON_body [(''error'', msg)]]\<rparr>)
         \<and> provider_calls m' = provider_calls demo_machine)"
  using unauthorized_rejected [of publish_wrong_key demo_world 0 demo_machine]
  by (simp add: scenario_defs valid_bearer_def os_Getenv_def)

subsection \<open>Topic subscription and its partial failures\<close>

text \<open>
  C2, as stated, fails: it speaks of every request whose provider call returns without
  error, and a request whose body does not bind is answered 400 whatever the provider
  reports. Here the request is sent as \<open>application/json\<close> and its body repeats
  \<open>topic\<close> with a number; the tokens and the topic are bound, the provider is called
  and reports no failure, and the response is 400, not 202.
\<close>

theorem topic_failures_counterexample:
  "valid_bearer demo_world subscribe_mistyped
   \<and> req_header subscribe_mistyped ''Content-Type'' = Some ''application/json''
   \<and> req_method subscribe_mistyped = ''POST'' \<and> req_path subscribe_mistyped = ''/subscribe''
   \<and> map_option (provider_calls \<circ> fst) (ServeHTTP demo_world 0 demo_machine subscribe_mistyped)
       = Some [SubscribeCall 7 [''t1'', ''t2''] ''news'']
   \<and> fcm_Subscribe demo_world 7 [''t1'', ''t2''] ''news''
       = Inr \<lparr>SuccessCount = 2, FailureCount = 0, Errors = []\<rparr>
   \<and> map_option snd (ServeHTTP demo_world 0 demo_machine subscribe_mistyped)
       = Some \<lparr>resp_status = 400, resp_body = []\<rparr>"
  by (simp add: scenario_defs valid_bearer_def eval_defs)

text \<open>
  C2, amended: for an authorized POST to \<open>/subscribe\<close> or \<open>/unsubscribe\<close> whose body
  binds without error and whose provider call returns a response: the response is 202
  with no body when the failure count is zero; otherwise it is 502 and the member
  \<open>errors\<close> holds, after the fixed lead-in, one entry \<open>Code: <index>, Message: <reason>\<close>
  for each element of the response's error list, in the order of the list and with
  nothing between the entries.
\<close>

theorem topic_failures:
  assumes "valid_bearer X r" "req_method r = ''POST''" "heap m state = Some s"
    and "bind_Subscribe X r = (v, None)"
    and "req_path r = ''/subscribe'' \<and> fcm_Subscribe X (MsgClient s) (s_Tokens v) (s_Topic v) = Inr resp
       \<or> req_path r = ''/unsubscribe'' \<and> fcm_Unsubscribe X (MsgClient s) (s_Tokens v) (s_Topic v) = Inr resp"
  shows "\<exists>m'. ServeHTTP X state m r = Some (m',
           if FailureCount resp = 0
           then \<lparr>resp_status = StatusAccepted, resp_body = []\<rparr>
           else \<lparr>resp_status = StatusBadGateway,
                 resp_body = [JSON_body [(''errors'', ''errors while subscribing to topic: '' @
                   concat (map (\<lambda>err. ''Code: '' @ fmt_d (Index err) @ '', Message: '' @ Reason err)
                             (Errors resp)))]]\<rparr>)"
  using assms(5)
proof
  assume a: "req_path r = ''/subscribe'' \<and> fcm_Subscribe X (MsgClient s) (s_Tokens v) (s_Topic v) = Inr resp"
  show ?thesis
    using subscribe_served [where m = m, OF assms(1,2) _ assms(3,4) refl] a
    by (auto simp: write_errors_concat status_defs)
next
  assume a: "req_path r = ''/unsubscribe'' \<and> fcm_Unsubscribe X (MsgClient s) (s_Tokens v) (s_Topic v) = Inr resp"
  show ?thesis
    using unsubscribe_served [where m = m, OF assms(1,2) _ assms(3,4) refl] a
    by (auto simp: write_errors_concat status_defs)
qed

theorem topic_failures_witness:
  "valid_bearer world_many subscribe_many \<and> req_method subscribe_many = ''POST''
   \<and> heap demo_machine 0 = Some \<lparr>MsgClient = 7\<rparr>
   \<and> bind_Subscribe world_many subscribe_many =
       (\<lparr>s_Tokens = [''t1'', ''t2'', ''t3'', ''t4''], s_Topic = ''news''\<rparr>, None)
   \<and> req_path subscribe_many = ''/subscribe''
   \<and> fcm_Subscribe world_many 7 [''t1'', ''t2'', ''t3'', ''t4''] ''news'' = Inr many_reply
   \<and> Errors many_reply = [\<lparr>Index = 0, Reason = ''invalid-argument''\<rparr>,
                           \<lparr>Index = 2, Reason = ''registration-token-not-registered''\<rparr>,
                           \<lparr>Index = 3, Reason = ''internal-error''\<rparr>]
   \<and> (\<exists>m'. ServeHTTP world_many 0 demo_machine subscribe_many = Some (m',
         \<lparr>resp_status = 502,
          resp_body = [JSON_body [(''errors'',
            ''errors while subscribing to topic: Code: 0, Message: invalid-argumentCode: 2, Message: registration-token-not-registeredCode: 3, Message: internal-error'')]]\<rparr>))"
  using topic_failures [where X = world_many and r = subscribe_many and m = demo_machine
      and state = 0 and s = "\<lparr>MsgClient = 7\<rparr>"
      and v = "\<lparr>s_Tokens = [''t1'', ''t2'', ''t3'', ''t4''], s_Topic = ''news''\<rparr>"
      and resp = many_reply]
  by (simp add: scenario_defs valid_bearer_def os_Getenv_def status_defs fmt_d_def digit_char_def)

subsection \<open>Bodies that do not bind\<close>

text \<open>
  C3, as stated, fails: \<open>Bind\<close> answers a body that does not decode with status 400.
  Here the request is sent as \<open>application/json\<close> and its body breaks off. The handler
  does go on, with the zero-valued struct, and the provider refuses the message without
  target; the error is written to the body, but the status stays 400.
\<close>

theorem decoding_failure_counterexample:
  "valid_bearer demo_world publish_truncated
   \<and> req_header publish_truncated ''Content-Type'' = Some ''application/json''
   \<and> req_method publish_truncated = ''POST'' \<and> req_path publish_truncated = ''/publish''
   \<and> bind_Publish demo_world publish_truncated = (zero_PublishInput, Some ''unexpected EOF'')
   \<and> map_option snd (ServeHTTP demo_world 0 demo_machine publish_truncated)
       = Some \<lparr>resp_status = 400,
                resp_body = [JSON_body [(''error'', ''error found while publishing message: exactly one of token, topic or condition must be specified'')]]\<rparr>"
  by (simp add: scenario_defs valid_bearer_def eval_defs)

text \<open>
  C3, amended: for an authorized POST to one of the four endpoints whose body does not
  bind, the handler is not stopped: it calls the provider once, with the fields of the
  struct as the failed binding left it (the zero values when the decoder wrote nothing).
  The status of the response is the 400 that \<open>Bind\<close> has sent, whatever the provider
  answers.
\<close>

theorem decoding_failure:
  assumes "valid_bearer X r" "req_method r = ''POST''" "heap m state = Some s"
    and "req_path r = ''/publish'' \<and> bind_Publish X r = (p, Some err)
           \<and> call = SendCall (MsgClient s)
                \<lparr>m_Notification = Some \<lparr>n_Title = Title (p_Notification p),
                   n_Body = Body (p_Notification p), n_ImageURL = []\<rparr>,
                 m_Token = p_Token p, m_Topic = [], m_Condition = []\<rparr>
       \<or> req_path r = ''/broadcast'' \<and> bind_Broadcast X r = (b, Some err)
           \<and> call = SendCall (MsgClient s)
                \<lparr>m_Notification = Some \<lparr>n_Title = Title (b_Notification b),
                   n_Body = Body (b_Notification b), n_ImageURL = []\<rparr>,
                 m_Token = [], m_Topic = b_Topic b, m_Condition = []\<rparr>
       \<or> req_path r = ''/subscribe'' \<and> bind_Subscribe X r = (v, Some err)
           \<and> call = SubscribeCall (MsgClient s) (s_Tokens v) (s_Topic v)
       \<or> req_path r = ''/unsubscribe'' \<and> bind_Subscribe X r = (v, Some err)
           \<and> call = UnsubscribeCall (MsgClient s) (s_Tokens v) (s_Topic v)"
  shows "\<exists>m' resp. ServeHTTP X state m r = Some (m', resp)
           \<and> resp_status resp = StatusBadRequest
           \<and> provider_calls m' = provider_calls m @ [call]"
proof -
  consider (pub) "req_path r = ''/publish''" "bind_Publish X r = (p, Some err)"
      "call = SendCall (MsgClient s)
                \<lparr>m_Notification = Some \<lparr>n_Title = Title (p_Notification p),
                   n_Body = Body (p_Notification p), n_ImageURL = []\<rparr>,
                 m_Token = p_Token p, m_Topic = [], m_Condition = []\<rparr>"
    | (bro) "req_path r = ''/broadcast''" "bind_Broadcast X r = (b, Some err)"
      "call = SendCall (MsgClient s)
                \<lparr>m_Notification = Some \<lparr>n_Title = Title (b_Notification b),
                   n_Body = Body (b_Notification b), n_ImageURL = []\<rparr>,
                 m_Token = [], m_Topic = b_Topic b, m_Condition = []\<rparr>"
    | (sub) "req_path r = ''/subscribe''" "bind_Subscribe X r = (v, Some err)"
      "call = SubscribeCall (MsgClient s) (s_Tokens v) (s_Topic v)"
    | (uns) "req_path r = ''/unsubscribe''" "bind_Subscribe X r = (v, Some err)"
      "call = UnsubscribeCall (MsgClient s) (s_Tokens v) (s_Topic v)"
    using assms(4) by blast
  then show ?thesis
  proof cases
    case pub
    show ?thesis
      using publish_served [where m = m, OF assms(1,2) pub(1) assms(3) pub(2) refl] pub(3)
      by (auto simp: StatusBadRequest_def)
  next
    case bro
    show ?thesis
      using broadcast_served [where m = m, OF assms(1,2) bro(1) assms(3) bro(2) refl] bro(3)
      by (auto simp: StatusBadRequest_def)
  next
    case sub
    show ?thesis
      using subscribe_served [where m = m, OF assms(1,2) sub(1) assms(3) sub(2) refl] sub(3)
      by (auto simp: StatusBadRequest_def)
  next
    case uns
    show ?thesis
      using unsubscribe_served [where m = m, OF assms(1,2) uns(1) assms(3) uns(2) refl] uns(3)
      by (auto simp: StatusBadRequest_def)
  qed
qed

theorem decoding_failure_witness:
  "valid_bearer demo_world publish_truncated \<and> req_method publish_truncated = ''POST''
   \<and> heap demo_machine 0 = Some \<lparr>MsgClient = 7\<rparr>
   \<and> req_path publish_truncated = ''/publish''
   \<and> bind_Publish demo_world publish_truncated = (zero_PublishInput, Some ''unexpected EOF'')
   \<and> (\<exists>m' resp. ServeHTTP demo_world 0 demo_machine publish_truncated = Some (m', resp)
         \<and> resp_status resp = StatusBadRequest
         \<and> provider_calls m' = provider_calls demo_machine @
             [SendCall 7 \<lparr>m_Notification = Some \<lparr>n_Title = [], n_Body = [], n_ImageURL = []\<rparr>,
                m_Token = [], m_Topic = [], m_Condition = []\<rparr>])"
  using decoding_failure [of demo_world publish_truncated demo_machine 0 "\<lparr>MsgClient = 7\<rparr>"
      zero_PublishInput "''unexpected EOF''"
      "SendCall 7 \<lparr>m_Notification = Some \<lparr>n_Title = [], n_Body = [], n_ImageURL = []\<rparr>,
                m_Token = [], m_Topic = [], m_Condition = []\<rparr>"]
  by (simp add: scenario_defs valid_bearer_def os_Getenv_def)

subsection \<open>Publishing and broadcasting\<close>

text \<open>
  C4. For an authorized POST to \<open>/publish\<close> the handler calls the provider's send once,
  with the message whose token is the bound field \<open>to\<close>, whose notification carries the
  bound title and body, and whose topic is empty; for \<open>/broadcast\<close> the message carries
  the bound \<open>topic\<close> instead and no token. This holds whether or not the binding
  reported an error.
\<close>

theorem message_construction:
  assumes "valid_bearer X r" "req_method r = ''POST''" "heap m state = Some s"
    and "req_path r = ''/publish'' \<and> bind_Publish X r = (p, e)
           \<and> message = \<lparr>m_Notification = Some \<lparr>n_Title = Title (p_Notification p),
                           n_Body = Body (p_Notification p), n_ImageURL = []\<rparr>,
                         m_Token = p_Token p, m_Topic = [], m_Condition = []\<rparr>
       \<or> req_path r = ''/broadcast'' \<and> bind_Broadcast X r = (b, e)
           \<and> message = \<lparr>m_Notification = Some \<lparr>n_Title = Title (b_Notification b),
                           n_Body = Body (b_Notification b), n_ImageURL = []\<rparr>,
                         m_Token = [], m_Topic = b_Topic b, m_Condition = []\<rparr>"
  shows "\<exists>m' resp. ServeHTTP X state m r = Some (m', resp)
           \<and> provider_calls m' = provider_calls m @ [SendCall (MsgClient s) message]"
  using assms(4)
proof (elim disjE conjE)
  assume a: "req_path r = ''/publish''" "bind_Publish X r = (p, e)"
    "message = \<lparr>m_Notification = Some \<lparr>n_Title = Title (p_Notification p),
                           n_Body = Body (p_Notification p), n_ImageURL = []\<rparr>,
                         m_Token = p_Token p, m_Topic = [], m_Condition = []\<rparr>"
  show ?thesis
    using publish_served [where m = m, OF assms(1,2) a(1) assms(3) a(2,3)] by blast
next
  assume a: "req_path r = ''/broadcast''" "bind_Broadcast X r = (b, e)"
    "message = \<lparr>m_Notification = Some \<lparr>n_Title = Title (b_Notification b),
                           n_Body = Body (b_Notification b), n_ImageURL = []\<rparr>,
                         m_Token = [], m_Topic = b_Topic b, m_Condition = []\<rparr>"
  show ?thesis
    using broadcast_served [where m = m, OF assms(1,2) a(1) assms(3) a(2,3)] by blast
qed

theorem message_construction_witness:
  "valid_bearer demo_world publish_ok \<and> req_method publish_ok = ''POST''
   \<and> heap demo_machine 0 = Some \<lparr>MsgClient = 7\<rparr>
   \<and> req_path publish_ok = ''/publish''
   \<and> bind_Publish demo_world publish_ok =
       (\<lparr>p_Token = ''tok_abc'', p_Notification = \<lparr>Title = ''Hi'', Body = ''There''\<rparr>\<rparr>, None)
   \<and> (\<exists>m' resp. ServeHTTP demo_world 0 demo_machine publish_ok = Some (m', resp)
         \<and> provider_calls m' = provider_calls demo_machine @
             [SendCall 7 \<lparr>m_Notification = Some \<lparr>n_Title = ''Hi'', n_Body = ''There'', n_ImageURL = []\<rparr>,
                m_Token = ''tok_abc'', m_Topic = [], m_Condition = []\<rparr>])"
  using message_construction [of demo_world publish_ok demo_machine 0 "\<lparr>MsgClient = 7\<rparr>"
      "\<lparr>p_Token = ''tok_abc'', p_Notification = \<lparr>Title = ''Hi'', Body = ''There''\<rparr>\<rparr>" None
      "\<lparr>m_Notification = Some \<lparr>n_Title = ''Hi'', n_Body = ''There'', n_ImageURL = []\<rparr>,
                m_Token = ''tok_abc'', m_Topic = [], m_Condition = []\<rparr>"]
  by (simp add: scenario_defs valid_bearer_def os_Getenv_def)

text \<open>
  C5, as stated, fails on an authorized request whose body does not bind although the
  provider accepts the message: here the request is sent as \<open>application/json\<close>,
  \<open>notification\<close> is a string, the token is bound, the send succeeds, and the response
  is 400, not 202.
\<close>

theorem send_accepted_counterexample:
  "valid_bearer demo_world publish_mistyped
   \<and> req_header publish_mistyped ''Content-Type'' = Some ''application/json''
   \<and> req_method publish_mistyped = ''POST'' \<and> req_path publish_mistyped = ''/publish''
   \<and> map_option (provider_calls \<circ> fst) (ServeHTTP demo_world 0 demo_machine publish_mistyped)
       = Some [SendCall 7 \<lparr>m_Notification = Some \<lparr>n_Title = [], n_Body = [], n_ImageURL = []\<rparr>,
                 m_Token = ''tok_abc'', m_Topic = [], m_Condition = []\<rparr>]
   \<and> fcm_Send demo_world 7 \<lparr>m_Notification = Some \<lparr>n_Title = [], n_Body = [], n_ImageURL = []\<rparr>,
                 m_Token = ''tok_abc'', m_Topic = [], m_Condition = []\<rparr> = Inr ''msg1''
   \<and> map_option snd (ServeHTTP demo_world 0 demo_machine publish_mistyped)
       = Some \<lparr>resp_status = 400, resp_body = []\<rparr>"
  by (simp add: scenario_defs valid_bearer_def eval_defs)

text \<open>
  C5, amended: for an authorized POST to \<open>/publish\<close> or \<open>/broadcast\<close> whose body binds
  without error and whose provider send succeeds, the response is 202 with an empty body.
\<close>

theorem send_accepted:
  assumes "valid_bearer X r" "req_method r = ''POST''" "heap m state = Some s"
    and "req_path r = ''/publish'' \<and> bind_Publish X r = (p, None)
           \<and> fcm_Send X (MsgClient s) \<lparr>m_Notification = Some \<lparr>n_Title = Title (p_Notification p),
                   n_Body = Body (p_Notification p), n_ImageURL = []\<rparr>,
                 m_Token = p_Token p, m_Topic = [], m_Condition = []\<rparr> = Inr response
       \<or> req_path r = ''/broadcast'' \<and> bind_Broadcast X r = (b, None)
           \<and> fcm_Send X (MsgClient s) \<lparr>m_Notification = Some \<lparr>n_Title = Title (b_Notification b),
                   n_Body = Body (b_Notification b), n_ImageURL = []\<rparr>,
                 m_Token = [], m_Topic = b_Topic b, m_Condition = []\<rparr> = Inr response"
  shows "\<exists>m'. ServeHTTP X state m r =
           Some (m', \<lparr>resp_status = StatusAccepted, resp_body = []\<rparr>)"
  using assms(4)
proof (elim disjE conjE)
  assume a: "req_path r = ''/publish''" "bind_Publish X r = (p, None)"
    "fcm_Send X (MsgClient s) \<lparr>m_Notification = Some \<lparr>n_Title = Title (p_Notification p),
                   n_Body = Body (p_Notification p), n_ImageURL = []\<rparr>,
                 m_Token = p_Token p, m_Topic = [], m_Condition = []\<rparr> = Inr response"
  show ?thesis
    using publish_served [where m = m, OF assms(1,2) a(1) assms(3) a(2) refl] a(3)
    by (auto simp: StatusAccepted_def)
next
  assume a: "req_path r = ''/broadcast''" "bind_Broadcast X r = (b, None)"
    "fcm_Send X (MsgClient s) \<lparr>m_Notification = Some \<lparr>n_Title = Title (b_Notification b),
                   n_Body = Body (b_Notification b), n_ImageURL = []\<rparr>,
                 m_Token = [], m_Topic = b_Topic b, m_Condition = []\<rparr> = Inr response"
  show ?thesis
    using broadcast_served [where m = m, OF assms(1,2) a(1) assms(3) a(2) refl] a(3)
    by (auto simp: StatusAccepted_def)
qed

theorem send_accepted_witness:
  "valid_bearer demo_world publish_ok \<and> req_method publish_ok = ''POST''
   \<and> heap demo_machine 0 = Some \<lparr>MsgClient = 7\<rparr>
   \<and> req_path publish_ok = ''/publish''
   \<and> bind_Publish demo_world publish_ok =
       (\<lparr>p_Token = ''tok_abc'', p_Notification = \<lparr>Title = ''Hi'', Body = ''There''\<rparr>\<rparr>, None)
   \<and> fcm_Send demo_world 7
        \<lparr>m_Notification = Some \<lparr>n_Title = ''Hi'', n_Body = ''There'', n_ImageURL = []\<rparr>,
         m_Token = ''tok_abc'', m_Topic = [], m_Condition = []\<rparr> = Inr ''msg1''
   \<and> (\<exists>m'. ServeHTTP demo_world 0 demo_machine publish_ok =
           Some (m', \<lparr>resp_status = 202, resp_body = []\<rparr>))"
  using send_accepted [of demo_world publish_ok demo_machine 0 "\<lparr>MsgClient = 7\<rparr>"
      "\<lparr>p_Token = ''tok_abc'', p_Notification = \<lparr>Title = ''Hi'', Body = ''There''\<rparr>\<rparr>" "''msg1''"]
  by (simp add: scenario_defs valid_bearer_def os_Getenv_def StatusAccepted_def)

subsection \<open>Provider errors\<close>

text \<open>
  C6, as stated, fails on an authorized request whose body does not bind (here sent as
  \<open>application/json\<close>, with \<open>notification\<close> a string): the provider's error text is in
  the body, but the status is the 400 of the binding, not 502.
\<close>

theorem provider_error_counterexample:
  "valid_bearer world_down publish_mistyped
   \<and> req_header publish_mistyped ''Content-Type'' = Some ''application/json''
   \<and> req_method publish_mistyped = ''POST'' \<and> req_path publish_mistyped = ''/publish''
   \<and> fcm_Send world_down 7 \<lparr>m_Notification = Some \<lparr>n_Title = [], n_Body = [], n_ImageURL = []\<rparr>,
                 m_Token = ''tok_abc'', m_Topic = [], m_Condition = []\<rparr> = Inl ''connection refused''
   \<and> map_option (provider_calls \<circ> fst) (ServeHTTP world_down 0 demo_machine publish_mistyped)
       = Some [SendCall 7 \<lparr>m_Notification = Some \<lparr>n_Title = [], n_Body = [], n_ImageURL = []\<rparr>,
                 m_Token = ''tok_abc'', m_Topic = [], m_Condition = []\<rparr>]
   \<and> map_option snd (ServeHTTP world_down 0 demo_machine publish_mistyped)
       = Some \<lparr>resp_status = 400,
                resp_body = [JSON_body [(''error'', ''error found while publishing message: connection refused'')]]\<rparr>"
  by (simp add: scenario_defs valid_bearer_def eval_defs)

text \<open>
  C6, amended: for an authorized POST to any of the four endpoints whose body binds
  without error and whose provider call returns an error, the response is 502 with a
  JSON body whose member \<open>error\<close> is the endpoint's lead-in followed by the provider's
  error text, and the provider has been called exactly once (no retry).
\<close>

theorem provider_error:
  assumes "valid_bearer X r" "req_method r = ''POST''" "heap m state = Some s"
    and "req_path r = ''/publish'' \<and> bind_Publish X r = (p, None)
           \<and> fcm_Send X (MsgClient s) \<lparr>m_Notification = Some \<lparr>n_Title = Title (p_Notification p),
                   n_Body = Body (p_Notification p), n_ImageURL = []\<rparr>,
                 m_Token = p_Token p, m_Topic = [], m_Condition = []\<rparr> = Inl err
           \<and> call = SendCall (MsgClient s) \<lparr>m_Notification = Some \<lparr>n_Title = Title (p_Notification p),
                   n_Body = Body (p_Notification p), n_ImageURL = []\<rparr>,
                 m_Token = p_Token p, m_Topic = [], m_Condition = []\<rparr>
           \<and> prefix = ''error found while publishing message: ''
       \<or> req_path r = ''/broadcast'' \<and> bind_Broadcast X r = (b, None)
           \<and> fcm_Send X (MsgClient s) \<lparr>m_Notification = Some \<lparr>n_Title = Title (b_Notification b),
                   n_Body = Body (b_Notification b), n_ImageURL = []\<rparr>,
                 m_Token = [], m_Topic = b_Topic b, m_Condition = []\<rparr> = Inl err
           \<and> call = SendCall (MsgClient s) \<lparr>m_Notification = Some \<lparr>n_Title = Title (b_Notification b),
                   n_Body = Body (b_Notification b), n_ImageURL = []\<rparr>,
                 m_Token = [], m_Topic = b_Topic b, m_Condition = []\<rparr>
           \<and> prefix = ''error found while broadcasting message: ''
       \<or> req_path r = ''/subscribe'' \<and> bind_Subscribe X r = (v, None)
           \<and> fcm_Subscribe X (MsgClient s) (s_Tokens v) (s_Topic v) = Inl err
           \<and> call = SubscribeCall (MsgClient s) (s_Tokens v) (s_Topic v)
           \<and> prefix = ''error found while subscribing to topic: ''
       \<or> req_path r = ''/unsubscribe'' \<and> bind_Subscribe X r = (v, None)
           \<and> fcm_Unsubscribe X (MsgClient s) (s_Tokens v) (s_Topic v) = Inl err
           \<and> call = UnsubscribeCall (MsgClient s) (s_Tokens v) (s_Topic v)
           \<and> prefix = ''error found while unsubscribing from topic: ''"
  shows "\<exists>m'. ServeHTTP X state m r =
           Some (m', \<lparr>resp_status = StatusBadGateway,
                      resp_body = [JSON_body [(''error'', prefix @ err)]]\<rparr>)
         \<and> provider_calls m' = provider_calls m @ [call]"
  using assms(4)
proof (elim disjE conjE)
  assume a: "req_path r = ''/publish''" "bind_Publish X r = (p, None)"
    "fcm_Send X (MsgClient s) \<lparr>m_Notification = Some \<lparr>n_Title = Title (p_Notification p),
                   n_Body = Body (p_Notification p), n_ImageURL = []\<rparr>,
                 m_Token = p_Token p, m_Topic = [], m_Condition = []\<rparr> = Inl err"
    "call = SendCall (MsgClient s) \<lparr>m_Notification = Some \<lparr>n_Title = Title (p_Notification p),
                   n_Body = Body (p_Notification p), n_ImageURL = []\<rparr>,
                 m_Token = p_Token p, m_Topic = [], m_Condition = []\<rparr>"
    "prefix = ''error found while publishing message: ''"
  show ?thesis
    using publish_served [where m = m, OF assms(1,2) a(1) assms(3) a(2) refl] a(3,4,5)
    by (auto simp: StatusBadGateway_def)
next
  assume a: "req_path r = ''/broadcast''" "bind_Broadcast X r = (b, None)"
    "fcm_Send X (MsgClient s) \<lparr>m_Notification = Some \<lparr>n_Title = Title (b_Notification b),
                   n_Body = Body (b_Notification b), n_ImageURL = []\<rparr>,
                 m_Token = [], m_Topic = b_Topic b, m_Condition = []\<rparr> = Inl err"
    "call = SendCall (MsgClient s) \<lparr>m_Notification = Some \<lparr>n_Title = Title (b_Notification b),
                   n_Body = Body (b_Notification b), n_ImageURL = []\<rparr>,
                 m_Token = [], m_Topic = b_Topic b, m_Condition = []\<rparr>"
    "prefix = ''error found while broadcasting message: ''"
  show ?thesis
    using broadcast_served [where m = m, OF assms(1,2) a(1) assms(3) a(2) refl] a(3,4,5)
    by (auto simp: StatusBadGateway_def)
next
  assume a: "req_path r = ''/subscribe''" "bind_Subscribe X r = (v, None)"
    "fcm_Subscribe X (MsgClient s) (s_Tokens v) (s_Topic v) = Inl err"
    "call = SubscribeCall (MsgClient s) (s_Tokens v) (s_Topic v)"
    "prefix = ''error found while subscribing to topic: ''"
  show ?thesis
    using subscribe_served [where m = m, OF assms(1,2) a(1) assms(3) a(2) refl] a(3,4,5)
    by (auto simp: StatusBadGateway_def)
next
  assume a: "req_path r = ''/unsubscribe''" "bind_Subscribe X r = (v, None)"
    "fcm_Unsubscribe X (MsgClient s) (s_Tokens v) (s_Topic v) = Inl err"
    "call = UnsubscribeCall (MsgClient s) (s_Tokens v) (s_Topic v)"
    "prefix = ''error found while unsubscribing from topic: ''"
  show ?thesis
    using unsubscribe_served [where m = m, OF assms(1,2) a(1) assms(3) a(2) refl] a(3,4,5)
    by (auto simp: StatusBadGateway_def)
qed

theorem provider_error_witness:
  "valid_bearer world_down subscribe_ok \<and> req_method subscribe_ok = ''POST''
   \<and> heap demo_machine 0 = Some \<lparr>MsgClient = 7\<rparr>
   \<and> req_path subscribe_ok = ''/subscribe''
   \<and> bind_Subscribe world_down subscribe_ok = (\<lparr>s_Tokens = [''t1'', ''t2''], s_Topic = ''news''\<rparr>, None)
   \<and> fcm_Subscribe world_down 7 [''t1'', ''t2''] ''news'' = Inl ''connection refused''
   \<and> (\<exists>m'. ServeHTTP world_down 0 demo_machine subscribe_ok =
           Some (m', \<lparr>resp_status = 502,
                      resp_body = [JSON_body [(''error'',
                        ''error found while subscribing to topic: connection refused'')]]\<rparr>)
         \<and> provider_calls m' = provider_calls demo_machine @ [SubscribeCall 7 [''t1'', ''t2''] ''news''])"
  using provider_error [where X = world_down and r = subscribe_ok and m = demo_machine
      and state = 0 and s = "\<lparr>MsgClient = 7\<rparr>" and err = "''connection refused''"
      and call = "SubscribeCall 7 [''t1'', ''t2''] ''news''"
      and prefix = "''error found while subscribing to topic: ''"
      and v = "\<lparr>s_Tokens = [''t1'', ''t2''], s_Topic = ''news''\<rparr>"]
  by (simp add: scenario_defs valid_bearer_def os_Getenv_def StatusBadGateway_def)

subsection \<open>Repeating a subscription\<close>

text \<open>
  C7. The same authorized POST to \<open>/subscribe\<close>, served twice in a row by the process,
  gets the same response both times when the binding and the provider's reply are the
  same at both times: nothing the first run leaves behind (the traces have grown, the
  environment may differ) enters the second. The status is a function of the binding
  outcome and the provider's reply alone.
\<close>

theorem subscribe_repeatable:
  assumes "valid_bearer X1 r" "valid_bearer X2 r"
    and "req_method r = ''POST''" "req_path r = ''/subscribe''" "heap m state = Some s"
    and "bind_Subscribe X1 r = (v, e)" "bind_Subscribe X2 r = (v, e)"
    and "fcm_Subscribe X1 (MsgClient s) (s_Tokens v) (s_Topic v) = reply"
    and "fcm_Subscribe X2 (MsgClient s) (s_Tokens v) (s_Topic v) = reply"
  shows "\<exists>resp. snd (run_server state m [(X1, r), (X2, r)]) = [Some resp, Some resp]
           \<and> resp_status resp =
               (if e \<noteq> None then 400
                else case reply of Inl err \<Rightarrow> 502
                     | Inr t \<Rightarrow> if FailureCount t \<noteq> 0 then 502 else 202)"
proof -
  obtain m1 resp1 where 1: "ServeHTTP X1 state m r = Some (m1, resp1)" "heap m1 = heap m"
    and r1: "resp1 = \<lparr>resp_status = (if e \<noteq> None then 400
                            else case reply of Inl err \<Rightarrow> 502
                                 | Inr resp \<Rightarrow> if FailureCount resp \<noteq> 0 then 502 else 202),
            resp_body = (case reply of
                           Inl err \<Rightarrow> [JSON_body [(''error'', ''error found while subscribing to topic: '' @ err)]]
                         | Inr resp \<Rightarrow>
                             if FailureCount resp \<noteq> 0
                             then [JSON_body [(''errors'', ''errors while subscribing to topic: ''
                                     @ write_errors [] (Errors resp))]]
                             else [])\<rparr>"
    using subscribe_served [where m = m, OF assms(1,3,4,5,6) assms(8) [symmetric]] by blast
  have "heap m1 state = Some s" using 1(2) assms(5) by simp
  then obtain m2 where 2: "ServeHTTP X2 state m1 r = Some (m2, resp1)"
    using subscribe_served [where m = m1, OF assms(2,3,4) _ assms(7) assms(9) [symmetric]] r1
    by blast
  have "snd (run_server state m [(X1, r), (X2, r)]) = [Some resp1, Some resp1]"
    using 1(1) 2 by simp
  then show ?thesis using r1 by simp
qed

theorem subscribe_repeatable_witness:
  "valid_bearer world_partial subscribe_ok
   \<and> req_method subscribe_ok = ''POST'' \<and> req_path subscribe_ok = ''/subscribe''
   \<and> heap demo_machine 0 = Some \<lparr>MsgClient = 7\<rparr>
   \<and> bind_Subscribe world_partial subscribe_ok = (\<lparr>s_Tokens = [''t1'', ''t2''], s_Topic = ''news''\<rparr>, None)
   \<and> fcm_Subscribe world_partial 7 [''t1'', ''t2''] ''news'' = Inr partial_reply
   \<and> (\<exists>resp. snd (run_server 0 demo_machine [(world_partial, subscribe_ok), (world_partial, subscribe_ok)])
                = [Some resp, Some resp]
         \<and> resp_status resp = 502)"
  using subscribe_repeatable [where ?X1.0 = world_partial and ?X2.0 = world_partial
      and r = subscribe_ok and m = demo_machine and state = 0 and s = "\<lparr>MsgClient = 7\<rparr>"
      and v = "\<lparr>s_Tokens = [''t1'', ''t2''], s_Topic = ''news''\<rparr>" and e = None
      and reply = "Inr partial_reply"]
  by (simp add: scenario_defs valid_bearer_def os_Getenv_def)

subsection \<open>The application state\<close>

text \<open>
  C8. When \<open>main\<close> reaches the router, the memory holds exactly one \<open>AppState\<close>, with
  the client that \<open>app.Messaging\<close> returned. Whatever requests the process then serves,
  under whatever environment, bindings and provider replies, the memory stays as
  \<open>main\<close> left it, and every provider call of every handler is made on that client.
\<close>

theorem state_immutable:
  assumes "main dotenv newApp messaging = Serving m0 state"
  shows "\<exists>cl. heap m0 state = Some \<lparr>MsgClient = cl\<rparr> \<and> dom (heap m0) = {state}
           \<and> heap (fst (run_server state m0 inputs)) = heap m0
           \<and> (\<forall>call\<in>set (provider_calls (fst (run_server state m0 inputs))).
                 call_client call = cl)"
proof -
  obtain cl where m0: "state = 0" "heap m0 = [0 \<mapsto> \<lparr>MsgClient = cl\<rparr>]" "provider_calls m0 = []"
    using main_serving [OF assms] by blast
  obtain new where f: "heap (fst (run_server state m0 inputs)) = heap m0"
      "provider_calls (fst (run_server state m0 inputs)) = provider_calls m0 @ new"
      "\<forall>call\<in>set new. \<exists>s. heap m0 state = Some s \<and> call_client call = MsgClient s"
    using run_server_frame [of state m0 inputs] by blast
  have "\<forall>call\<in>set new. call_client call = cl"
    using f(3) m0(1,2) by auto
  then show ?thesis using m0 f(1,2) by auto
qed

theorem state_immutable_witness:
  "main None (Inr 1) demo_Messaging = Serving demo_machine 0
   \<and> (\<exists>cl. heap demo_machine 0 = Some \<lparr>MsgClient = cl\<rparr> \<and> dom (heap demo_machine) = {0}
         \<and> heap (fst (run_server 0 demo_machine
               [(demo_world, publish_ok), (world_partial, subscribe_ok), (demo_world, publish_wrong_key)]))
             = heap demo_machine
         \<and> (\<forall>call\<in>set (provider_calls (fst (run_server 0 demo_machine
               [(demo_world, publish_ok), (world_partial, subscribe_ok), (demo_world, publish_wrong_key)]))).
               call_client call = cl))"
proof -
  have h: "main None (Inr 1) demo_Messaging = Serving demo_machine 0"
    by (simp add: main_def log_Info_def demo_Messaging_def demo_machine_def)
  show ?thesis
    using h state_immutable [OF h] by blast
qed

subsection \<open>The label of the unsubscribe errors\<close>

text \<open>
  C9. For an authorized POST to \<open>/unsubscribe\<close> whose provider call returns a response
  with a failure count other than zero, the member \<open>errors\<close> of the response body
  begins with \<open>errors while subscribing to topic\<close>, and the line logged at level error
  has the message \<open>error while subscribing to topic\<close>: both say subscribing. The
  response is the 502 one when the body bound without error (otherwise the same body goes
  out under the 400 of the binding).
\<close>

theorem unsubscribe_label:
  assumes "valid_bearer X r" "req_method r = ''POST''" "req_path r = ''/unsubscribe''"
    and "heap m state = Some s" "bind_Subscribe X r = (v, e)"
    and "fcm_Unsubscribe X (MsgClient s) (s_Tokens v) (s_Topic v) = Inr resp"
    and "FailureCount resp \<noteq> 0"
  shows "\<exists>m' rest. ServeHTTP X state m r = Some (m',
           \<lparr>resp_status = (if e = None then StatusBadGateway else StatusBadRequest),
            resp_body = [JSON_body [(''errors'', ''errors while subscribing to topic'' @ rest)]]\<rparr>)
         \<and> log_lines m' = log_lines m @
             [\<lparr>level = Error, msg = ''error while subscribing to topic'',
               keyvals = [(''errors'', LText (write_errors [] (Errors resp)))]\<rparr>]"
  using unsubscribe_served [where m = m, OF assms(1,2,3,4,5) refl] assms(6,7)
  by (auto simp: status_defs)

theorem unsubscribe_label_witness:
  "valid_bearer world_partial unsubscribe_ok
   \<and> req_method unsubscribe_ok = ''POST'' \<and> req_path unsubscribe_ok = ''/unsubscribe''
   \<and> heap demo_machine 0 = Some \<lparr>MsgClient = 7\<rparr>
   \<and> bind_Subscribe world_partial unsubscribe_ok = (\<lparr>s_Tokens = [''t1'', ''t2''], s_Topic = ''news''\<rparr>, None)
   \<and> fcm_Unsubscribe world_partial 7 [''t1'', ''t2''] ''news'' = Inr partial_reply
   \<and> FailureCount partial_reply \<noteq> 0
   \<and> (\<exists>m' rest. ServeHTTP world_partial 0 demo_machine unsubscribe_ok = Some (m',
           \<lparr>resp_status = 502,
            resp_body = [JSON_body [(''errors'', ''errors while subscribing to topic'' @ rest)]]\<rparr>)
         \<and> log_lines m' = log_lines demo_machine @
             [\<lparr>level = Error, msg = ''error while subscribing to topic'',
               keyvals = [(''errors'', LText ''Code: 1, Message: invalid-registration-token'')]\<rparr>])"
  using unsubscribe_label [where X = world_partial and r = unsubscribe_ok and m = demo_machine
      and state = 0 and s = "\<lparr>MsgClient = 7\<rparr>"
      and v = "\<lparr>s_Tokens = [''t1'', ''t2''], s_Topic = ''news''\<rparr>" and e = None
      and resp = partial_reply]
  by (simp add: scenario_defs valid_bearer_def os_Getenv_def status_defs fmt_d_def digit_char_def)

subsection \<open>An unset API key\<close>

text \<open>
  C10. When \<open>API_KEY\<close> is unset or empty at the time of a request, a request whose
  \<open>Authorization\<close> header is exactly \<open>Bearer\<close> and one space passes the middleware
  unchanged and reaches the handler, which calls the provider. The key is read at each
  request: the same request is rejected while the environment holds a non-empty key and
  passes when it no longer does, in either order.
\<close>

theorem empty_key_passes:
  assumes "os_Getenv X ''API_KEY'' = []" "req_header r ''Authorization'' = Some ''Bearer ''"
    and "req_method r = ''POST''"
    and "req_path r \<in> {''/publish'', ''/broadcast'', ''/subscribe'', ''/unsubscribe''}"
    and "heap m state = Some s"
    and "os_Getenv X' ''API_KEY'' \<noteq> []"
  shows "APIKeyAuthMiddleware X m (new_Context r) = (m, new_Context r)
         \<and> (\<exists>m' resp call. ServeHTTP X state m r = Some (m', resp)
               \<and> resp_status resp \<noteq> StatusUnauthorized
               \<and> provider_calls m' = provider_calls m @ [call])
         \<and> (\<exists>a b. snd (run_server state m [(X', r), (X, r)]) = [Some b, Some a]
               \<and> resp_status b = StatusUnauthorized \<and> resp_status a \<noteq> StatusUnauthorized)
         \<and> (\<exists>a b. snd (run_server state m [(X, r), (X', r)]) = [Some a, Some b]
               \<and> resp_status a \<noteq> StatusUnauthorized \<and> resp_status b = StatusUnauthorized)"
proof -
  have ok: "valid_bearer X r"
    using assms(1,2) by (simp add: valid_bearer_def)
  have no: "\<not> valid_bearer X' r"
    using assms(2,6) by (simp add: valid_bearer_def)
  have pass: "APIKeyAuthMiddleware X m (new_Context r) = (m, new_Context r)"
    using ok by (intro auth_pass) (simp add: new_Context_def)
  obtain h where h: "map_of routes (req_path r) = Some h"
    using route_paths [OF assms(4)] by blast
  have reach: "\<exists>m' resp call. ServeHTTP X state n r = Some (m', resp)
           \<and> resp_status resp \<noteq> StatusUnauthorized
           \<and> provider_calls m' = provider_calls n @ [call] \<and> heap m' = heap n"
    if "heap n state = Some s" for n
    using serve_reaches_handler [OF ok assms(3) that assms(4)]
    by (auto simp: StatusUnauthorized_def)
  have stop: "\<exists>msg. ServeHTTP X' state n r =
           Some (n, \<lparr>resp_status = 401, resp_body = [JSON_body [(''error'', msg)]]\<rparr>)" for n
    using serve_unauthorized [OF h no] by blast
  obtain m1 a call where a: "ServeHTTP X state m r = Some (m1, a)"
      "resp_status a \<noteq> StatusUnauthorized" "provider_calls m1 = provider_calls m @ [call]"
      "heap m1 = heap m"
    using reach [OF assms(5)] by blast
  obtain msg where b: "ServeHTTP X' state m r =
      Some (m, \<lparr>resp_status = 401, resp_body = [JSON_body [(''error'', msg)]]\<rparr>)"
    using stop by blast
  obtain msg1 where b1: "ServeHTTP X' state m1 r =
      Some (m1, \<lparr>resp_status = 401, resp_body = [JSON_body [(''error'', msg1)]]\<rparr>)"
    using stop by blast
  have first: "\<exists>a b. snd (run_server state m [(X', r), (X, r)]) = [Some b, Some a]
               \<and> resp_status b = StatusUnauthorized \<and> resp_status a \<noteq> StatusUnauthorized"
    using a(1,2) b by (simp add: StatusUnauthorized_def)
  have second: "\<exists>a b. snd (run_server state m [(X, r), (X', r)]) = [Some a, Some b]
               \<and> resp_status a \<noteq> StatusUnauthorized \<and> resp_status b = StatusUnauthorized"
    using a(1,2) b1 by (simp add: StatusUnauthorized_def)
  show ?thesis
    using pass a(1,2,3) first second by blast
qed

theorem empty_key_passes_witness:
  "os_Getenv world_no_key ''API_KEY'' = []
   \<and> req_header publish_empty_key ''Authorization'' = Some ''Bearer ''
   \<and> req_method publish_empty_key = ''POST''
   \<and> req_path publish_empty_key \<in> {''/publish'', ''/broadcast'', ''/subscribe'', ''/unsubscribe''}
   \<and> heap demo_machine 0 = Some \<lparr>MsgClient = 7\<rparr>
   \<and> os_Getenv demo_world ''API_KEY'' \<noteq> []
   \<and> APIKeyAuthMiddleware world_no_key demo_machine (new_Context publish_empty_key)
       = (demo_machine, new_Context publish_empty_key)
   \<and> (\<exists>m' resp call. ServeHTTP world_no_key 0 demo_machine publish_empty_key = Some (m', resp)
         \<and> resp_status resp \<noteq> StatusUnauthorized
         \<and> provider_calls m' = provider_calls demo_machine @ [call])
   \<and> (\<exists>a b. snd (run_server 0 demo_machine [(demo_world, publish_empty_key), (world_no_key, publish_empty_key)])
                = [Some b, Some a]
         \<and> resp_status b = StatusUnauthorized \<and> resp_status a \<noteq> StatusUnauthorized)
   \<and> (\<exists>a b. snd (run_server 0 demo_machine [(world_no_key, publish_empty_key), (demo_world, publish_empty_key)])
                = [Some a, Some b]
         \<and> resp_status a \<noteq> StatusUnauthorized \<and> resp_status b = StatusUnauthorized)"
proof -
  have h: "os_Getenv world_no_key ''API_KEY'' = []"
    "req_header publish_empty_key ''Authorization'' = Some ''Bearer ''"
    "req_method publish_empty_key = ''POST''"
    "req_path publish_empty_key \<in> {''/publish'', ''/broadcast'', ''/subscribe'', ''/unsubscribe''}"
    "heap demo_machine 0 = Some \<lparr>MsgClient = 7\<rparr>"
    "os_Getenv demo_world ''API_KEY'' \<noteq> []"
    by (simp_all add: scenario_defs os_Getenv_def)
  show ?thesis
    using h empty_key_passes [OF h] by blast
qed

end
